theory Spec2Isabelle
  imports Complex_Main
begin

section \<open>Python values used by \<open>sdf_renderer.py\<close>\<close>

text \<open>
  The script \<open>sdf-net/app/sdf_renderer.py\<close> is modelled as a function from its parsed
  command line and its environment to the sequence of effects it performs and the way it
  ends. Exceptions are values of \<open>py_error\<close>; a fallible call returns \<open>py_error + 'a\<close>.
  Floating-point numbers are modelled by real numbers: rounding (and the \<open>float32\<close> cast)
  is not modelled.
\<close>

datatype py_error = AssertionError | IndexError | TypeError | ValueError | RuntimeError

text \<open>Sequencing of fallible calls: the first exception ends the computation.\<close>

definition and_then :: "py_error + 'a \<Rightarrow> ('a \<Rightarrow> py_error + 'b) \<Rightarrow> py_error + 'b" where
  "and_then r k = (case r of Inl e \<Rightarrow> Inl e | Inr v \<Rightarrow> k v)"

text \<open>A tensor (or numpy array): its shape and its elements in row-major order.\<close>

record tensor =
  shape :: "nat list"
  elems :: "real list"

definition wf_tensor :: "tensor \<Rightarrow> bool" where
  "wf_tensor a = (length (elems a) = prod_list (shape a))"

text \<open>\<open>x[:, j]\<close>: index \<open>j\<close> along the second axis; needs at least two axes.\<close>

definition select_col :: "tensor \<Rightarrow> nat \<Rightarrow> py_error + tensor" where
  "select_col x j =
     (case shape x of
        d0 # d1 # rest \<Rightarrow>
          if j < d1
          then Inr \<lparr>shape = d0 # rest,
                    elems = concat (map (\<lambda>i. take (prod_list rest)
                                               (drop ((i * d1 + j) * prod_list rest) (elems x)))
                                        [0..<d0])\<rparr>
          else Inl IndexError
      | _ \<Rightarrow> Inl IndexError)"

text \<open>Elementwise operations: with a scalar, and between two tensors of one shape.\<close>

definition tmap :: "(real \<Rightarrow> real) \<Rightarrow> tensor \<Rightarrow> tensor" where
  "tmap g a = \<lparr>shape = shape a, elems = map g (elems a)\<rparr>"

definition tmap2 :: "(real \<Rightarrow> real \<Rightarrow> real) \<Rightarrow> tensor \<Rightarrow> tensor \<Rightarrow> tensor" where
  "tmap2 g a b = \<lparr>shape = shape a, elems = map2 g (elems a) (elems b)\<rparr>"

text \<open>
  Broadcasting, as \<open>torch.max(a, b)\<close> applies it: shapes are aligned at their last axis,
  two sizes are compatible when they are equal or one of them is 1. The functions with
  suffix \<open>_rev\<close> work on reversed shapes and indices (last axis first).
\<close>

fun bshape_rev :: "nat list \<Rightarrow> nat list \<Rightarrow> nat list option" where
  "bshape_rev [] ys = Some ys"
| "bshape_rev (x # xs) [] = Some (x # xs)"
| "bshape_rev (x # xs) (y # ys) =
     (if x = y \<or> y = 1 then map_option ((#) x) (bshape_rev xs ys)
      else if x = 1 then map_option ((#) y) (bshape_rev xs ys)
      else None)"

definition broadcast_shapes :: "nat list \<Rightarrow> nat list \<Rightarrow> nat list option" where
  "broadcast_shapes s1 s2 = map_option rev (bshape_rev (rev s1) (rev s2))"

fun unravel_rev :: "nat list \<Rightarrow> nat \<Rightarrow> nat list" where
  "unravel_rev [] k = []"
| "unravel_rev (d # ds) k = (k mod d) # unravel_rev ds (k div d)"

fun ravel_rev :: "nat list \<Rightarrow> nat list \<Rightarrow> nat" where
  "ravel_rev (d # ds) (i # is) = (if d = 1 then 0 else i) + d * ravel_rev ds is"
| "ravel_rev _ _ = 0"

definition expand :: "tensor \<Rightarrow> nat list \<Rightarrow> real list" where
  "expand a s = map (\<lambda>k. elems a ! ravel_rev (rev (shape a)) (unravel_rev (rev s) k))
                    [0..<prod_list s]"

definition torch_max :: "tensor \<Rightarrow> tensor \<Rightarrow> py_error + tensor" where
  "torch_max a b =
     (case broadcast_shapes (shape a) (shape b) of
        None \<Rightarrow> Inl RuntimeError
      | Some s \<Rightarrow> Inr \<lparr>shape = s, elems = map2 max (expand a s) (expand b s)\<rparr>)"

text \<open>
  \<open>torch.tensor(a, device='cuda:0')\<close>: a copy of \<open>a\<close> on the first CUDA device. Without
  a CUDA device the call raises.
\<close>

definition to_cuda0 :: "bool \<Rightarrow> tensor \<Rightarrow> py_error + tensor" where
  "to_cuda0 cuda a = (if cuda then Inr a else Inl RuntimeError)"

text \<open>\<open>a.reshape(-1, c)\<close>: the number of rows is inferred from the number of elements.\<close>

definition reshape_rows :: "tensor \<Rightarrow> nat \<Rightarrow> py_error + tensor" where
  "reshape_rows a c =
     (if c = 0 \<or> length (elems a) mod c \<noteq> 0 then Inl RuntimeError
      else Inr \<lparr>shape = [length (elems a) div c, c], elems = elems a\<rparr>)"

section \<open>\<open>GyroidLattice.forward\<close>\<close>

definition kCellSize :: real where
  "kCellSize = 0.014408772790049425 * 3"

text \<open>
  The forward pass of the lattice wrapper. \<open>cuda\<close> says whether a CUDA device exists;
  \<open>sdf_net\<close> is the forward function of the wrapped network, which the repository
  defines elsewhere.
\<close>

definition GyroidLattice_forward ::
  "bool \<Rightarrow> (tensor \<Rightarrow> tensor) \<Rightarrow> tensor \<Rightarrow> py_error + tensor" where
  "GyroidLattice_forward cuda sdf_net x =
     (let t = (0.5 :: real) in
      and_then (select_col x 0) (\<lambda>x0.
      and_then (select_col x 1) (\<lambda>x1.
      and_then (select_col x 2) (\<lambda>x2.
        let phase = tmap (\<lambda>v. 2 * 3.14 * v / kCellSize);
            gyroid = tmap (\<lambda>v. v - t ^ 2)
                       (tmap2 plus
                          (tmap2 plus
                             (tmap2 times (tmap cos (phase x0)) (tmap sin (phase x1)))
                             (tmap2 times (tmap cos (phase x1)) (tmap sin (phase x2))))
                          (tmap2 times (tmap cos (phase x2)) (tmap sin (phase x0))))
        in and_then (to_cuda0 cuda gyroid) (\<lambda>g.
           and_then (reshape_rows g 1) (\<lambda>g1.
             torch_max g1 (sdf_net x)))))))"

section \<open>Strings, paths and numeric helpers\<close>

text \<open>\<open>s.split(c)\<close>: the pieces of \<open>s\<close> between occurrences of \<open>c\<close>; never empty.\<close>

fun split_on :: "char \<Rightarrow> string \<Rightarrow> string list" where
  "split_on c [] = [[]]"
| "split_on c (x # xs) =
     (if x = c then [] # split_on c xs
      else (case split_on c xs of
              [] \<Rightarrow> [[x]]
            | piece # pieces \<Rightarrow> (x # piece) # pieces))"

text \<open>\<open>args.pretrained.split('/')[-1].split('.')[0]\<close>\<close>

definition model_name :: "string \<Rightarrow> string" where
  "model_name pretrained_path = hd (split_on CHR ''.'' (last (split_on CHR ''/'' pretrained_path)))"

text \<open>\<open>os.path.join(a, b)\<close> on POSIX, for two components.\<close>

definition path_join :: "string \<Rightarrow> string \<Rightarrow> string" where
  "path_join a b =
     (if b \<noteq> [] \<and> hd b = CHR ''/'' then b
      else if a = [] \<or> last a = CHR ''/'' then a @ b
      else a @ ''/'' @ b)"

text \<open>Decimal digits of a natural number, and the format \<open>{:06d}\<close>.\<close>

fun digits :: "nat \<Rightarrow> string" where
  "digits n = (if n < 10 then [''0123456789'' ! n]
               else digits (n div 10) @ [''0123456789'' ! (n mod 10)])"

declare digits.simps [simp del]

definition fmt06d :: "int \<Rightarrow> string" where
  "fmt06d n =
     (if n < 0
      then CHR ''-'' # replicate (5 - length (digits (nat (- n)))) CHR ''0'' @ digits (nat (- n))
      else replicate (6 - length (digits (nat n))) CHR ''0'' @ digits (nat n))"

text \<open>\<open>np.arange(start, stop, step)\<close> on integers.\<close>

definition arange :: "int \<Rightarrow> int \<Rightarrow> int \<Rightarrow> int list" where
  "arange start stop step =
     (if step > 0
      then map (\<lambda>i. start + int i * step) [0..<nat (- ((start - stop) div step))]
      else if step < 0
      then map (\<lambda>i. start + int i * step) [0..<nat (- ((stop - start) div (- step)))]
      else [])"

text \<open>\<open>np.linspace(start, stop, num)\<close>: \<open>num\<close> evenly spaced samples, both ends included.\<close>

definition linspace :: "real \<Rightarrow> real \<Rightarrow> nat \<Rightarrow> real list" where
  "linspace start stop num =
     map (\<lambda>i. start + real i * ((stop - start) / real (num - 1))) [0..<num]"

definition radians :: "real \<Rightarrow> real" where
  "radians deg = deg * pi / 180"

type_synonym vec3 = "real \<times> real \<times> real"

definition scale3 :: "real \<Rightarrow> vec3 \<Rightarrow> vec3" where
  "scale3 r v = (case v of (x, y, z) \<Rightarrow> (r * x, r * y, r * z))"

text \<open>
  \<open>torch.tensor(np.array(grid))\<close> for a list of points \<open>[x, y, z]\<close>: one row per point.
\<close>

definition grid_tensor :: "vec3 list \<Rightarrow> tensor" where
  "grid_tensor pts =
     \<lparr>shape = [length pts, 3], elems = concat (map (\<lambda>(x, y, z). [x, y, z]) pts)\<rparr>"

text \<open>
  \<open>np.hstack\<close> has one positional parameter, the sequence of arrays to stack. A call
  with any other number of positional arguments raises \<open>TypeError\<close> before the body
  runs. The body makes every array at least one-dimensional and concatenates along the
  first axis when the first array is one-dimensional, along the second axis otherwise.
  An array passed as the sequence is read as the sequence of its slices along the first
  axis.
\<close>

datatype pyarg = Arr tensor | Tup "tensor list"

definition atleast_1d :: "tensor \<Rightarrow> tensor" where
  "atleast_1d a = (if shape a = [] then a\<lparr>shape := [1]\<rparr> else a)"

definition concatenate0 :: "tensor list \<Rightarrow> py_error + tensor" where
  "concatenate0 arrs =
     (if list_all (\<lambda>b. length (shape b) = 1) arrs
      then Inr \<lparr>shape = [sum_list (map (\<lambda>b. hd (shape b)) arrs)],
                elems = concat (map elems arrs)\<rparr>
      else Inl ValueError)"

definition concatenate1 :: "tensor list \<Rightarrow> py_error + tensor" where
  "concatenate1 arrs =
     (case arrs of
        [] \<Rightarrow> Inl ValueError
      | a # _ \<Rightarrow>
          (case shape a of
             d0 # d1 # rest \<Rightarrow>
               if list_all (\<lambda>b. length (shape b) = length (shape a) \<and> hd (shape b) = d0 \<and>
                                 drop 2 (shape b) = rest) arrs
               then Inr \<lparr>shape = d0 # sum_list (map (\<lambda>b. shape b ! 1) arrs) # rest,
                         elems = concat (map (\<lambda>i. concat (map (\<lambda>b.
                                    take (shape b ! 1 * prod_list rest)
                                      (drop (i * (shape b ! 1 * prod_list rest)) (elems b))) arrs))
                                  [0..<d0])\<rparr>
               else Inl ValueError
           | _ \<Rightarrow> Inl ValueError))"

definition hstack_seq :: "tensor list \<Rightarrow> py_error + tensor" where
  "hstack_seq tup =
     (let arrs = map atleast_1d tup in
      case arrs of
        [] \<Rightarrow> Inl ValueError
      | a # _ \<Rightarrow> if length (shape a) = 1 then concatenate0 arrs else concatenate1 arrs)"

definition unstack :: "tensor \<Rightarrow> tensor list" where
  "unstack a =
     map (\<lambda>i. \<lparr>shape = tl (shape a),
                elems = take (prod_list (tl (shape a)))
                          (drop (i * prod_list (tl (shape a))) (elems a))\<rparr>)
         [0..<hd (shape a)]"

fun np_hstack :: "pyarg list \<Rightarrow> py_error + tensor" where
  "np_hstack [Tup arrs] = hstack_seq arrs"
| "np_hstack [Arr a] = (if shape a = [] then Inl TypeError else hstack_seq (unstack a))"
| "np_hstack _ = Inl TypeError"

section \<open>Command line, environment and effects\<close>

text \<open>
  The parsed command line: the options the script adds to the parser, and the options
  of the repository's \<open>parse_options\<close> that the script reads.
\<close>

record args =
  pretrained :: "string option"
  net :: string
  jit :: bool
  sol :: bool
  lod :: "int option"
  camera_origin :: vec3
  camera_lookat :: vec3
  camera_fov :: real
  img_dir :: string
  render_2d :: bool
  exr :: bool
  r360 :: bool
  rsphere :: bool
  sdf_grid :: bool
  nb_poses :: int
  cam_radius :: real
  disable_aa :: bool
  export :: "string option"
  rotate :: "real option"
  depth :: real

datatype device = CPU | CUDA

text \<open>
  The network built by \<open>globals()[args.net](args)\<close>: its class name, whether it was
  passed through \<open>torch.jit.script\<close>, and the file its state was loaded from.
\<close>

record org_net =
  arch :: string
  scripted :: bool
  weights :: "string option"

datatype network = GyroidLattice org_net | SOL_NGLOD network

text \<open>
  The result of \<open>R.from_rotvec(v).as_matrix()\<close> is kept symbolic: the rotation with
  rotation vector \<open>v\<close> (axis \<open>v / |v|\<close>, angle \<open>|v|\<close> in radians).
\<close>

datatype matrix3 = Eye3 | FromRotvec vec3

text \<open>The keyword arguments of one call of \<open>renderer.shade_images\<close>.\<close>

record shade_call =
  shade_f :: vec3
  shade_t :: vec3
  shade_fv :: real
  shade_aa :: bool
  shade_mm :: matrix3

datatype channel = Rgb | Normal

text \<open>
  The effects of a run, in the order they happen. A rendered image is identified by
  the call of \<open>shade_images\<close> that produced it. \<open>Forward n x g\<close> is the call \<open>n(x)\<close>
  with gradient recording enabled (\<open>g\<close>) or inside \<open>torch.no_grad()\<close> (\<open>\<not> g\<close>).
  \<open>Print\<close> carries the literal text of the message only.
\<close>

datatype event =
    Construct string
  | JitScript
  | LoadStateDict string
  | OrgTo device
  | OrgEval
  | WrapGyroid
  | NetTo device
  | NetEval
  | Print string
  | WrapSOL network
  | SaveSOL network string
  | SetLod int
  | MakeDirs string
  | ConstructRenderer device network
  | ShadeImages shade_call
  | PyexrWrite string shade_call
  | SavePng string channel shade_call
  | Forward network tensor bool
  | SaveTxt string tensor
  | March tensor tensor
  | SaveMesh string

datatype mode = R360 | RSphere | SdfGrid | MarchingCubes

datatype outcome = Completed | Exited nat | Raised py_error

text \<open>
  What a run leaves behind: its effects, the mode branches it entered, and how it
  ended (\<open>Completed\<close>: the script ran to its last line).
\<close>

record result =
  trace :: "event list"
  entered :: "mode list"
  status :: outcome

text \<open>
  The environment: whether CUDA is available, which paths exist before the run, and
  the functions of the repository's library that the script calls: the forward pass
  of the loaded network, the forward pass of a \<open>SOL_NGLOD\<close> wrapper, and
  \<open>sample_fib_sphere\<close>. Calls into the renderer, the cube marcher and the file writers
  are recorded as events and assumed not to raise.
\<close>

record env =
  cuda_available :: bool
  path_exists :: "string \<Rightarrow> bool"
  sdf_eval :: "org_net \<Rightarrow> tensor \<Rightarrow> tensor"
  sol_eval :: "network \<Rightarrow> tensor \<Rightarrow> py_error + tensor"
  sample_fib_sphere :: "int \<Rightarrow> vec3 list"

section \<open>The script\<close>

text \<open>\<open>device = torch.device('cuda' if use_cuda else 'cpu')\<close>\<close>

definition pick_device :: "env \<Rightarrow> device" where
  "pick_device e = (if cuda_available e then CUDA else CPU)"

text \<open>
  Calling a network on a batch: the lattice wrapper runs \<open>GyroidLattice.forward\<close> over
  the forward pass of the network it wraps.
\<close>

fun net_forward :: "env \<Rightarrow> network \<Rightarrow> tensor \<Rightarrow> py_error + tensor" where
  "net_forward e (GyroidLattice on) x =
     GyroidLattice_forward (cuda_available e) (sdf_eval e on) x"
| "net_forward e (SOL_NGLOD n) x = sol_eval e n x"

text \<open>
  \<open>if not os.path.exists(d): os.makedirs(d)\<close> for each directory in turn; \<open>made\<close>
  holds the directories created so far.
\<close>

fun ensure_dirs :: "(string \<Rightarrow> bool) \<Rightarrow> string list \<Rightarrow> string list \<Rightarrow> event list" where
  "ensure_dirs ex made [] = []"
| "ensure_dirs ex made (d # ds) =
     (if ex d \<or> List.member made d then ensure_dirs ex made ds
      else MakeDirs d # ensure_dirs ex (d # made) ds)"

definition write_exr :: "string \<Rightarrow> shade_call \<Rightarrow> event list" where
  "write_exr path data = [PyexrWrite path data]"

text \<open>The body of the loop of the branch \<open>if args.r360\<close>, for one angle.\<close>

definition r360_step :: "args \<Rightarrow> string \<Rightarrow> int \<Rightarrow> event list" where
  "r360_step a ins_dir angle =
     (let rad = radians (of_int angle);
          model_matrix = FromRotvec (rad * (- 1 / sqrt 3), rad * (- 1 / sqrt 3),
                                     rad * (- 1 / sqrt 3));
          out = \<lparr>shade_f = camera_origin a, shade_t = camera_lookat a,
                 shade_fv = camera_fov a, shade_aa = (\<not> disable_aa a),
                 shade_mm = model_matrix\<rparr>;
          idx = \<lfloor>(of_int (100 * angle) :: real)\<rfloor>
      in [ShadeImages out,
          SavePng (ins_dir @ ''/rgb/'' @ fmt06d idx @ ''.png'') Rgb out])"

definition r360_mode :: "args \<Rightarrow> string \<Rightarrow> result" where
  "r360_mode a ins_dir =
     \<lparr>trace = concat (map (r360_step a ins_dir) (arange 0 360 10)),
      entered = [R360], status = Completed\<rparr>"

text \<open>The body of the loop of the branch \<open>elif args.rsphere\<close>, for one pose.\<close>

definition rsphere_step :: "args \<Rightarrow> string \<Rightarrow> matrix3 \<Rightarrow> nat \<times> vec3 \<Rightarrow> event list" where
  "rsphere_step a ins_dir model_matrix pose =
     (case pose of (p, cam_origin) \<Rightarrow>
        let out = \<lparr>shade_f = cam_origin, shade_t = camera_lookat a,
                   shade_fv = camera_fov a, shade_aa = (\<not> disable_aa a),
                   shade_mm = model_matrix\<rparr>
        in [ShadeImages out]
           @ (if exr a then write_exr (ins_dir @ ''/exr/'' @ fmt06d (int p) @ ''.exr'') out
              else [])
           @ [SavePng (ins_dir @ ''/normal/'' @ fmt06d (int p) @ ''.png'') Normal out])"

definition rsphere_mode :: "env \<Rightarrow> args \<Rightarrow> string \<Rightarrow> matrix3 \<Rightarrow> result" where
  "rsphere_mode e a ins_dir model_matrix =
     (let views = sample_fib_sphere e (nb_poses a);
          cam_origins = map (scale3 (cam_radius a)) views
      in \<lparr>trace = concat (map (rsphere_step a ins_dir model_matrix)
                                (enumerate 0 cam_origins)),
          entered = [RSphere], status = Completed\<rparr>)"

text \<open>The branch \<open>elif args.sdf_grid\<close>.\<close>

definition sdf_grid_mode :: "env \<Rightarrow> network \<Rightarrow> result" where
  "sdf_grid_mode e n =
     (let K = linspace (- 1.1) 1.1 150;
          grid = [(x, y, z). x \<leftarrow> K, y \<leftarrow> K, z \<leftarrow> K]
      in case to_cuda0 (cuda_available e) (grid_tensor grid) of
           Inl err \<Rightarrow> \<lparr>trace = [], entered = [SdfGrid], status = Raised err\<rparr>
         | Inr torch_grid \<Rightarrow>
             (let tr1 = [Print ''shape of torch grid: '', NetEval, Forward n torch_grid True]
              in case net_forward e n torch_grid of
                   Inl err \<Rightarrow> \<lparr>trace = tr1, entered = [SdfGrid], status = Raised err\<rparr>
                 | Inr sdf \<Rightarrow>
                     (let tr2 = tr1 @ [Print ''shape of sdf grid: '', Print []]
                      in case np_hstack [Arr sdf, Arr torch_grid] of
                           Inl err \<Rightarrow> \<lparr>trace = tr2, entered = [SdfGrid], status = Raised err\<rparr>
                         | Inr r \<Rightarrow> \<lparr>trace = tr2 @ [SaveTxt ''sdf.csv'' r],
                                     entered = [SdfGrid], status = Exited 1\<rparr>)))"

text \<open>The final \<open>else\<close> branch.\<close>

definition default_mode :: "env \<Rightarrow> network \<Rightarrow> result" where
  "default_mode e n =
     (let tr0 = [Print ''[INFO] here it is'', Print ''[INFO] sdf slice''];
          Kx = linspace (- 1) 1 150;
          Ky = linspace (- 0.3) 0.5 150;
          Kz = linspace (- 0.3) 0.8 150;
          grid = [(x, y, z). x \<leftarrow> Kx, y \<leftarrow> Ky, z \<leftarrow> Kz]
      in case to_cuda0 (cuda_available e) (grid_tensor grid) of
           Inl err \<Rightarrow> \<lparr>trace = tr0, entered = [MarchingCubes], status = Raised err\<rparr>
         | Inr torch_grid \<Rightarrow>
             (case reshape_rows torch_grid 3 of
                Inl err \<Rightarrow> \<lparr>trace = tr0, entered = [MarchingCubes], status = Raised err\<rparr>
              | Inr batch \<Rightarrow>
                  (case net_forward e n batch of
                     Inl err \<Rightarrow> \<lparr>trace = tr0 @ [Forward n batch False],
                                 entered = [MarchingCubes], status = Raised err\<rparr>
                   | Inr sdf \<Rightarrow>
                       \<lparr>trace = tr0 @ [Forward n batch False, March torch_grid sdf,
                                       SaveMesh ''./marched_gyroid.obj''],
                        entered = [MarchingCubes], status = Completed\<rparr>)))"

text \<open>A mode runs after the effects \<open>pre\<close> of the lines before it.\<close>

definition after :: "event list \<Rightarrow> result \<Rightarrow> result" where
  "after pre r = \<lparr>trace = pre @ trace r, entered = entered r, status = status r\<rparr>"

text \<open>
  Lines 123 to 135: the network is built, scripted with \<open>--jit\<close>, given the state
  loaded from the weights file, moved to the device and wrapped in the lattice.
\<close>

definition wrapped_net :: "args \<Rightarrow> string \<Rightarrow> network" where
  "wrapped_net a weights_path =
     GyroidLattice \<lparr>arch = net a, scripted = jit a, weights = Some weights_path\<rparr>"

definition load_events :: "env \<Rightarrow> args \<Rightarrow> string \<Rightarrow> event list" where
  "load_events e a weights_path =
     [Construct (net a)] @ (if jit a then [JitScript] else [])
     @ [LoadStateDict weights_path, OrgTo (pick_device e), OrgEval,
        WrapGyroid, NetTo (pick_device e), NetEval,
        Print ''Total number of parameters: '']"

text \<open>
  Lines 143 to 159: the optional \<open>SOL_NGLOD\<close> wrapper and level of detail, the output
  directories, and the renderer.
\<close>

definition render_net :: "args \<Rightarrow> string \<Rightarrow> network" where
  "render_net a weights_path =
     (if sol a then SOL_NGLOD (wrapped_net a weights_path) else wrapped_net a weights_path)"

definition output_dir :: "args \<Rightarrow> string \<Rightarrow> string" where
  "output_dir a weights_path = path_join (img_dir a) (model_name weights_path)"

definition setup_events :: "env \<Rightarrow> args \<Rightarrow> string \<Rightarrow> event list" where
  "setup_events e a weights_path =
     (if sol a then [WrapSOL (wrapped_net a weights_path)] else [])
     @ (case lod a of None \<Rightarrow> [] | Some l \<Rightarrow> [SetLod l])
     @ ensure_dirs (path_exists e) []
         (output_dir a weights_path
          # map (path_join (output_dir a weights_path)) [''normal'', ''rgb'', ''exr''])
     @ [ConstructRenderer (pick_device e) (render_net a weights_path)]"

text \<open>Lines 161 to 165: the model matrix before the modes.\<close>

definition initial_matrix :: "args \<Rightarrow> matrix3" where
  "initial_matrix a =
     (case rotate a of
        Some deg \<Rightarrow> FromRotvec (radians deg * 0, radians deg * 1, radians deg * 0)
      | None \<Rightarrow> Eye3)"

text \<open>Lines 167 to 254: the chain \<open>if / elif / elif / else\<close> over the modes.\<close>

definition run_mode :: "env \<Rightarrow> args \<Rightarrow> string \<Rightarrow> result" where
  "run_mode e a weights_path =
     (if r360 a then r360_mode a (output_dir a weights_path)
      else if rsphere a
      then rsphere_mode e a (output_dir a weights_path) (initial_matrix a)
      else if sdf_grid a then sdf_grid_mode e (render_net a weights_path)
      else default_mode e (render_net a weights_path))"

text \<open>
  The body of \<open>if __name__ == '__main__'\<close>, from the parsed arguments on: the
  assertion on \<open>--pretrained\<close>, the loading, the export with its \<open>sys.exit()\<close>, and
  otherwise the setup and one mode.
\<close>

definition main :: "env \<Rightarrow> args \<Rightarrow> result" where
  "main e a =
     (case pretrained a of
        None \<Rightarrow> \<lparr>trace = [], entered = [], status = Raised AssertionError\<rparr>
      | Some weights_path \<Rightarrow>
          (case export a of
             Some export_path \<Rightarrow>
               \<lparr>trace = load_events e a weights_path
                        @ [WrapSOL (wrapped_net a weights_path),
                           SaveSOL (SOL_NGLOD (wrapped_net a weights_path)) export_path],
                entered = [], status = Exited 0\<rparr>
           | None \<Rightarrow>
               after (load_events e a weights_path @ setup_events e a weights_path)
                     (run_mode e a weights_path)))"

section \<open>Notions used to state the properties\<close>

text \<open>
  The gyroid implicit value at a point, as the specification writes it, with cell size
  \<open>c = 0.014408772790049425 * 3\<close>.
\<close>

definition gyroid_implicit :: "real \<Rightarrow> real \<Rightarrow> real \<Rightarrow> real" where
  "gyroid_implicit x y z =
     (let c = 0.014408772790049425 * 3 in
      cos (2 * 3.14 * x / c) * sin (2 * 3.14 * y / c)
      + cos (2 * 3.14 * y / c) * sin (2 * 3.14 * z / c)
      + cos (2 * 3.14 * z / c) * sin (2 * 3.14 * x / c) - 0.5 ^ 2)"

text \<open>
  The networks a run hands on: to the renderer, to a forward call of a mode, and to
  the \<open>SOL_NGLOD\<close> wrapper of the export.
\<close>

fun handed :: "event \<Rightarrow> network list" where
  "handed (ConstructRenderer d n) = [n]"
| "handed (Forward n x g) = [n]"
| "handed (WrapSOL n) = [n]"
| "handed _ = []"

definition nets_handed :: "event list \<Rightarrow> network list" where
  "nets_handed tr = concat (map handed tr)"

text \<open>
  The same, by receiver: the networks passed to the constructor \<open>SOL_NGLOD\<close>, and the
  networks passed to the renderer or called by a mode (grid evaluation, mesh
  extraction).
\<close>

fun sol_input :: "event \<Rightarrow> network list" where
  "sol_input (WrapSOL n) = [n]"
| "sol_input _ = []"

fun mode_net :: "event \<Rightarrow> network list" where
  "mode_net (ConstructRenderer d n) = [n]"
| "mode_net (Forward n x g) = [n]"
| "mode_net _ = []"

definition sol_inputs :: "event list \<Rightarrow> network list" where
  "sol_inputs tr = concat (map sol_input tr)"

definition mode_nets :: "event list \<Rightarrow> network list" where
  "mode_nets tr = concat (map mode_net tr)"

text \<open>The mode that the flags select, by the priority the specification gives.\<close>

definition mode_by_priority :: "args \<Rightarrow> mode" where
  "mode_by_priority a =
     (if r360 a then R360
      else if rsphere a then RSphere
      else if sdf_grid a then SdfGrid
      else MarchingCubes)"

text \<open>Projections of a trace: the renderer calls and the files written.\<close>

fun shade_of :: "event \<Rightarrow> shade_call list" where
  "shade_of (ShadeImages c) = [c]"
| "shade_of _ = []"

fun png_of :: "event \<Rightarrow> (string \<times> channel \<times> shade_call) list" where
  "png_of (SavePng path ch c) = [(path, ch, c)]"
| "png_of _ = []"

fun exr_of :: "event \<Rightarrow> (string \<times> shade_call) list" where
  "exr_of (PyexrWrite path c) = [(path, c)]"
| "exr_of _ = []"

definition shades :: "event list \<Rightarrow> shade_call list" where
  "shades tr = concat (map shade_of tr)"

definition pngs :: "event list \<Rightarrow> (string \<times> channel \<times> shade_call) list" where
  "pngs tr = concat (map png_of tr)"

definition exrs :: "event list \<Rightarrow> (string \<times> shade_call) list" where
  "exrs tr = concat (map exr_of tr)"

text \<open>
  Events of rendering, grid evaluation and mesh extraction; creation of directories;
  construction of the renderer; writing of a text file.
\<close>

fun is_mode_event :: "event \<Rightarrow> bool" where
  "is_mode_event (ShadeImages c) = True"
| "is_mode_event (PyexrWrite path c) = True"
| "is_mode_event (SavePng path ch c) = True"
| "is_mode_event (Forward n x g) = True"
| "is_mode_event (SaveTxt path r) = True"
| "is_mode_event (March g s) = True"
| "is_mode_event (SaveMesh path) = True"
| "is_mode_event _ = False"

fun is_setup_event :: "event \<Rightarrow> bool" where
  "is_setup_event (MakeDirs d) = True"
| "is_setup_event (ConstructRenderer d n) = True"
| "is_setup_event _ = False"

fun is_savetxt :: "event \<Rightarrow> bool" where
  "is_savetxt (SaveTxt path r) = True"
| "is_savetxt _ = False"

text \<open>
  A uniform grid of \<open>n\<close> samples per dimension over a box, both ends included, the last
  coordinate running fastest.
\<close>

definition uniform_grid :: "real \<times> real \<Rightarrow> real \<times> real \<Rightarrow> real \<times> real \<Rightarrow> nat \<Rightarrow> vec3 list" where
  "uniform_grid xr yr zr n =
     [(fst xr + real i * ((snd xr - fst xr) / real (n - 1)),
       fst yr + real j * ((snd yr - fst yr) / real (n - 1)),
       fst zr + real k * ((snd zr - fst zr) / real (n - 1))).
      i \<leftarrow> [0..<n], j \<leftarrow> [0..<n], k \<leftarrow> [0..<n]]"

text \<open>
  The grid of the mesh extraction, \<open>150\<close> samples per dimension over
  \<open>[-1, 1] \<times> [-0.3, 0.5] \<times> [-0.3, 0.8]\<close>, and the grid of the dense grid evaluation,
  \<open>150\<close> samples per dimension over \<open>[-1.1, 1.1]\<^sup>3\<close>, as tensors of one point per row.
\<close>

definition march_grid :: tensor where
  "march_grid = grid_tensor (uniform_grid (- 1, 1) (- 0.3, 0.5) (- 0.3, 0.8) 150)"

definition csv_grid :: tensor where
  "csv_grid = grid_tensor (uniform_grid (- 1.1, 1.1) (- 1.1, 1.1) (- 1.1, 1.1) 150)"

text \<open>
  The rotation by \<open>deg\<close> degrees about a unit axis, and the axis of the spinning
  sequence, \<open>(-1, -1, -1) / sqrt 3\<close>.
\<close>

definition rotation_about :: "vec3 \<Rightarrow> real \<Rightarrow> matrix3" where
  "rotation_about axis deg = FromRotvec (scale3 (radians deg) axis)"

definition spin_axis :: vec3 where
  "spin_axis = (- 1 / sqrt 3, - 1 / sqrt 3, - 1 / sqrt 3)"

text \<open>
  The renderer call of the spinning sequence at an angle, and the renderer call of the
  sphere-sampled views for a view direction.
\<close>

definition spin_call :: "args \<Rightarrow> int \<Rightarrow> shade_call" where
  "spin_call a angle =
     \<lparr>shade_f = camera_origin a, shade_t = camera_lookat a, shade_fv = camera_fov a,
      shade_aa = (\<not> disable_aa a), shade_mm = rotation_about spin_axis (of_int angle)\<rparr>"

definition pose_call :: "args \<Rightarrow> vec3 \<Rightarrow> shade_call" where
  "pose_call a view =
     \<lparr>shade_f = scale3 (cam_radius a) view, shade_t = camera_lookat a,
      shade_fv = camera_fov a, shade_aa = (\<not> disable_aa a), shade_mm = initial_matrix a\<rparr>"

section \<open>Concrete inputs\<close>

text \<open>
  A machine with CUDA and an empty output directory. Its network returns the constant
  distance 1 for every row of a batch, and its sphere sampler returns the north pole
  for every pose: stand-ins for the library functions, used where a property is
  instantiated.
\<close>

definition env_gpu :: env where
  "env_gpu =
     \<lparr>cuda_available = True,
      path_exists = (\<lambda>p. False),
      sdf_eval = (\<lambda>on x. \<lparr>shape = [hd (shape x), 1], elems = replicate (hd (shape x)) 1\<rparr>),
      sol_eval = (\<lambda>n x. Inr \<lparr>shape = [hd (shape x), 1], elems = replicate (hd (shape x)) 1\<rparr>),
      sample_fib_sphere = (\<lambda>n. replicate (nat n) (0, 0, 1))\<rparr>"

definition env_cpu :: env where
  "env_cpu = env_gpu\<lparr>cuda_available := False\<rparr>"

text \<open>The defaults of the options, with \<open>--pretrained\<close> given.\<close>

definition args_default :: args where
  "args_default =
     \<lparr>pretrained = Some ''_results/models/armadillo.pth'',
      net = ''OctreeSDF'', jit = False, sol = False, lod = None,
      camera_origin = (- 2.8, 2.8, - 2.8), camera_lookat = (0, 0, 0), camera_fov = 30,
      img_dir = ''_results/render_app/imgs'', render_2d = False, exr = False,
      r360 = False, rsphere = False, sdf_grid = False, nb_poses = 64, cam_radius = 4,
      disable_aa = False, export = None, rotate = None, depth = 0\<rparr>"

text \<open>A batch of two points, the origin twice.\<close>

definition batch2 :: tensor where
  "batch2 = \<lparr>shape = [2, 3], elems = [0, 0, 0, 0, 0, 0]\<rparr>"

section \<open>Tensors and the forward pass\<close>

lemma and_then_simps [simp]:
  "and_then (Inl err) k = Inl err"
  "and_then (Inr v) k = k v"
  by (simp_all add: and_then_def)

lemma concat_map_singleton:
  "(\<And>i. i \<in> set xs \<Longrightarrow> f i = [g i]) \<Longrightarrow> concat (map f xs) = map g xs"
  by (induction xs) simp_all

lemma select_col_2d:
  assumes "shape x = [n, m]" and "j < m" and "length (elems x) = n * m"
  shows "select_col x j = Inr \<lparr>shape = [n], elems = map (\<lambda>i. elems x ! (i * m + j)) [0..<n]\<rparr>"
proof -
  have one: "take (Suc 0) (drop (i * m + j) (elems x)) = [elems x ! (i * m + j)]"
    if "i \<in> set [0..<n]" for i
  proof -
    have "i * m + j < Suc i * m" using assms(2) by simp
    also have "\<dots> \<le> n * m" using that by (intro mult_le_mono1) simp
    finally show ?thesis using assms(3) by (simp add: take_Suc_conv_app_nth)
  qed
  have "concat (map (\<lambda>i. take (Suc 0) (drop (i * m + j) (elems x))) [0..<n])
             = map (\<lambda>i. elems x ! (i * m + j)) [0..<n]"
    by (rule concat_map_singleton) (rule one)
  then show ?thesis using assms(1,2) by (simp add: select_col_def)
qed

lemma broadcast_col_col: "broadcast_shapes [n, Suc 0] [n, Suc 0] = Some [n, Suc 0]"
  by (simp add: broadcast_shapes_def)

lemma expand_col:
  assumes "shape a = [n, Suc 0]" and "length (elems a) = n"
  shows "expand a [n, Suc 0] = elems a"
proof -
  have "ravel_rev (rev (shape a)) (unravel_rev (rev [n, Suc 0]) k) = k" if "k < n" for k
    using that assms(1) by simp
  then have "expand a [n, Suc 0] = map (\<lambda>k. elems a ! k) [0..<n]"
    by (simp add: expand_def)
  then show ?thesis using assms(2) map_nth [of "elems a"] by simp
qed

lemma tmap_map:
  "tmap g \<lparr>shape = s, elems = map h xs\<rparr> = \<lparr>shape = s, elems = map (\<lambda>i. g (h i)) xs\<rparr>"
  by (simp add: tmap_def)

lemma map2_same: "map2 g (map h xs) (map k xs) = map (\<lambda>i. g (h i) (k i)) xs"
  by (induction xs) simp_all

lemma tmap2_map:
  "tmap2 g \<lparr>shape = s, elems = map h xs\<rparr> \<lparr>shape = s', elems = map k xs\<rparr>
     = \<lparr>shape = s, elems = map (\<lambda>i. g (h i) (k i)) xs\<rparr>"
  by (simp add: tmap2_def map2_same)

lemma torch_max_cols:
  assumes "length gs = n" and "shape b = [n, 1]" and "length (elems b) = n"
  shows "torch_max \<lparr>shape = [n, 1], elems = gs\<rparr> b
           = Inr \<lparr>shape = [n, 1], elems = map (\<lambda>i. max (gs ! i) (elems b ! i)) [0..<n]\<rparr>"
proof -
  have a: "expand \<lparr>shape = [n, Suc 0], elems = gs\<rparr> [n, Suc 0] = gs"
    using expand_col [of "\<lparr>shape = [n, Suc 0], elems = gs\<rparr>" n] assms(1) by simp
  have b: "expand b [n, Suc 0] = elems b"
    using assms(2,3) by (simp add: expand_col)
  have "map2 max gs (elems b) = map (\<lambda>i. max (gs ! i) (elems b ! i)) [0..<n]"
    using assms(1,3) by (intro nth_equalityI) simp_all
  then show ?thesis
    by (simp add: torch_max_def assms(2) broadcast_col_col a b)
qed

text \<open>
  On a batch of shape \<open>(n, 3)\<close> the forward pass is the broadcast maximum of the
  column of gyroid values and the output of the wrapped network.
\<close>

lemma forward_as_max:
  assumes "shape x = [n, 3]" and "wf_tensor x"
  shows "GyroidLattice_forward True sdf_net x =
           torch_max \<lparr>shape = [n, 1],
                      elems = map (\<lambda>i. gyroid_implicit (elems x ! (i * 3)) (elems x ! (i * 3 + 1))
                                         (elems x ! (i * 3 + 2))) [0..<n]\<rparr>
                     (sdf_net x)"
proof -
  have len: "length (elems x) = n * 3" using assms by (simp add: wf_tensor_def)
  have c0: "select_col x 0 = Inr \<lparr>shape = [n], elems = map (\<lambda>i. elems x ! (i * 3 + 0)) [0..<n]\<rparr>"
    by (rule select_col_2d [OF assms(1) _ len]) simp
  have c1: "select_col x (Suc 0) = Inr \<lparr>shape = [n], elems = map (\<lambda>i. elems x ! (i * 3 + 1)) [0..<n]\<rparr>"
    using select_col_2d [OF assms(1) _ len, of 1] by simp
  have c2: "select_col x 2 = Inr \<lparr>shape = [n], elems = map (\<lambda>i. elems x ! (i * 3 + 2)) [0..<n]\<rparr>"
    by (rule select_col_2d [OF assms(1) _ len]) simp
  show ?thesis
    by (simp add: GyroidLattice_forward_def Let_def c0 c1 c2 tmap_map tmap2_map to_cuda0_def
        reshape_rows_def gyroid_implicit_def kCellSize_def)
qed

lemma forward_rows:
  assumes "shape x = [n, 3]" and "wf_tensor x"
    and "shape (sdf_net x) = [n, 1]" and "wf_tensor (sdf_net x)"
  shows "GyroidLattice_forward True sdf_net x =
           Inr \<lparr>shape = [n, 1],
                elems = map (\<lambda>i. max (gyroid_implicit (elems x ! (i * 3)) (elems x ! (i * 3 + 1))
                                                       (elems x ! (i * 3 + 2)))
                                      (elems (sdf_net x) ! i)) [0..<n]\<rparr>"
proof -
  have lens: "length (elems (sdf_net x)) = n" using assms(3,4) by (simp add: wf_tensor_def)
  let ?gs = "map (\<lambda>i. gyroid_implicit (elems x ! (i * 3)) (elems x ! (i * 3 + 1))
                                       (elems x ! (i * 3 + 2))) [0..<n]"
  have "GyroidLattice_forward True sdf_net x
          = torch_max \<lparr>shape = [n, 1], elems = ?gs\<rparr> (sdf_net x)"
    using assms(1,2) by (rule forward_as_max)
  also have "\<dots> = Inr \<lparr>shape = [n, 1],
                        elems = map (\<lambda>i. max (?gs ! i) (elems (sdf_net x) ! i)) [0..<n]\<rparr>"
    by (rule torch_max_cols) (simp_all add: assms(3) lens)
  also have "map (\<lambda>i. max (?gs ! i) (elems (sdf_net x) ! i)) [0..<n]
           = map (\<lambda>i. max (gyroid_implicit (elems x ! (i * 3)) (elems x ! (i * 3 + 1))
                                                 (elems x ! (i * 3 + 2)))
                                      (elems (sdf_net x) ! i)) [0..<n]"
    by (rule map_cong) simp_all
  finally show ?thesis .
qed

lemma forward_shape:
  assumes "shape x = [n, 3]" and "wf_tensor x" and "shape (sdf_net x) = [n, 1]"
  shows "\<exists>r. GyroidLattice_forward True sdf_net x = Inr r \<and> shape r = [n, 1]"
  by (simp add: forward_as_max [OF assms(1,2)] torch_max_def assms(3) broadcast_col_col)

lemma forward_no_cuda:
  assumes "shape x = [n, 3]"
  shows "GyroidLattice_forward False sdf_net x = Inl RuntimeError"
  using assms by (simp add: GyroidLattice_forward_def select_col_def to_cuda0_def)

lemma batch2_facts: "shape batch2 = [2, 3]" "wf_tensor batch2"
  by (simp_all add: batch2_def wf_tensor_def)

section \<open>The shape of the forward result\<close>

text \<open>
  Claim C9. For every input batch \<open>x\<close> of shape \<open>(N, 3)\<close>, \<open>GyroidLattice.forward\<close>
  returns a tensor of shape \<open>(N, 1)\<close>, not of shape \<open>(N,)\<close> as its docstring says: the
  gyroid term is reshaped to \<open>(-1, 1)\<close> before the elementwise maximum with the output
  of the wrapped network. The wrapped network is a parameter; as an SDF network it maps
  a batch of \<open>N\<close> points to \<open>N\<close> distances of shape \<open>(N, 1)\<close>. The forward pass runs on a
  machine with CUDA.
\<close>

theorem forward_returns_column:
  assumes "shape x = [n, 3]" and "wf_tensor x" and "shape (sdf_net x) = [n, 1]"
  shows "\<exists>r. GyroidLattice_forward True sdf_net x = Inr r \<and> shape r = [n, 1] \<and> shape r \<noteq> [n]"
  using forward_shape [of x n sdf_net] assms by auto

theorem forward_returns_column_witness:
  "shape batch2 = [2, 3] \<and> wf_tensor batch2
   \<and> shape (sdf_eval env_gpu \<lparr>arch = ''OctreeSDF'', scripted = False, weights = None\<rparr> batch2) = [2, 1]
   \<and> (\<exists>r. GyroidLattice_forward True
             (sdf_eval env_gpu \<lparr>arch = ''OctreeSDF'', scripted = False, weights = None\<rparr>) batch2 = Inr r
          \<and> shape r = [2, 1] \<and> shape r \<noteq> [2])"
proof -
  have s: "shape (sdf_eval env_gpu \<lparr>arch = ''OctreeSDF'', scripted = False, weights = None\<rparr> batch2)
             = [2, 1]"
    by (simp add: env_gpu_def batch2_def)
  show ?thesis
    using forward_returns_column
            [of batch2 2 "sdf_eval env_gpu \<lparr>arch = ''OctreeSDF'', scripted = False, weights = None\<rparr>"]
          batch2_facts s
    by simp
qed

section \<open>The phases of a run\<close>

lemma main_no_weights:
  "pretrained a = None \<Longrightarrow> main e a = \<lparr>trace = [], entered = [], status = Raised AssertionError\<rparr>"
  by (simp add: main_def)

lemma main_export:
  "pretrained a = Some p \<Longrightarrow> export a = Some q \<Longrightarrow>
   main e a = \<lparr>trace = load_events e a p
                        @ [WrapSOL (wrapped_net a p), SaveSOL (SOL_NGLOD (wrapped_net a p)) q],
                entered = [], status = Exited 0\<rparr>"
  by (simp add: main_def)

lemma main_modes:
  "pretrained a = Some p \<Longrightarrow> export a = None \<Longrightarrow>
   main e a = after (load_events e a p @ setup_events e a p) (run_mode e a p)"
  by (simp add: main_def)

lemma after_simps [simp]:
  "trace (after pre r) = pre @ trace r"
  "entered (after pre r) = entered r"
  "status (after pre r) = status r"
  by (simp_all add: after_def)

lemma entered_sdf_grid_mode: "entered (sdf_grid_mode e n) = [SdfGrid]"
  by (simp add: sdf_grid_mode_def Let_def split: sum.splits)

lemma entered_default_mode: "entered (default_mode e n) = [MarchingCubes]"
  by (simp add: default_mode_def Let_def split: sum.splits)

lemma entered_run_mode: "entered (run_mode e a p) = [mode_by_priority a]"
  by (simp add: run_mode_def mode_by_priority_def r360_mode_def rsphere_mode_def Let_def
      entered_sdf_grid_mode entered_default_mode)

section \<open>Selection of the mode\<close>

text \<open>
  Claim C2, as amended. On every run that has \<open>--pretrained\<close> and is not an export
  run, exactly one of the four modes executes, selected by flag priority: \<open>--r360\<close>,
  else \<open>--rsphere\<close>, else \<open>--sdf_grid\<close>, else marching-cubes mesh extraction. On every
  other run (no \<open>--pretrained\<close>, or \<open>--export\<close>) no mode executes. So no run executes
  two modes.
\<close>

theorem one_mode_by_priority:
  "entered (main e a) =
     (if pretrained a \<noteq> None \<and> export a = None then [mode_by_priority a] else [])"
proof (cases "pretrained a")
  case None
  then show ?thesis by (simp add: main_no_weights)
next
  case (Some p)
  then show ?thesis
    by (cases "export a") (simp_all add: main_modes main_export entered_run_mode)
qed

theorem one_mode_by_priority_witness:
  "entered (main env_gpu (args_default\<lparr>rsphere := True, sdf_grid := True\<rparr>)) = [RSphere]"
  using one_mode_by_priority [of env_gpu "args_default\<lparr>rsphere := True, sdf_grid := True\<rparr>"]
  by (simp add: args_default_def mode_by_priority_def)

text \<open>
  The claim as stated fails on a run without \<open>--pretrained\<close>: it is not an export run,
  and the assertion stops it before any mode.
\<close>

theorem no_mode_without_weights:
  "export (args_default\<lparr>pretrained := None\<rparr>) = None
   \<and> entered (main env_gpu (args_default\<lparr>pretrained := None\<rparr>)) = []"
  by (simp add: args_default_def main_def)

section \<open>Strings and ranges\<close>


lemma split_on_not_Nil: "split_on c s \<noteq> []"
  by (induction s) (auto split: list.splits)

lemma split_on_Cons_other:
  "x \<noteq> c \<Longrightarrow> split_on c (x # s) = (x # hd (split_on c s)) # tl (split_on c s)"
  using split_on_not_Nil [of c s] by (cases "split_on c s") simp_all

lemma hd_split_on: "hd (split_on c s) = takeWhile (\<lambda>x. x \<noteq> c) s"
proof (induction s)
  case Nil
  show ?case by simp
next
  case (Cons x s)
  show ?case
  proof (cases "x = c")
    case True
    then show ?thesis by simp
  next
    case False
    then show ?thesis using Cons by (simp add: split_on_Cons_other del: split_on.simps)
  qed
qed

lemma split_on_no_sep: "c \<notin> set s \<Longrightarrow> split_on c s = [s]"
  by (induction s) auto

lemma split_on_has_sep: "c \<in> set s \<Longrightarrow> tl (split_on c s) \<noteq> []"
proof (induction s)
  case Nil
  then show ?case by simp
next
  case (Cons x s)
  show ?case
  proof (cases "x = c")
    case True
    then show ?thesis using split_on_not_Nil [of c s] by simp
  next
    case False
    then have "c \<in> set s" using Cons.prems by simp
    then show ?thesis using Cons.IH False by (simp add: split_on_Cons_other del: split_on.simps)
  qed
qed

lemma last_split_on: "last (split_on c s) = rev (takeWhile (\<lambda>x. x \<noteq> c) (rev s))"
proof (induction s)
  case Nil
  show ?case by simp
next
  case (Cons x s)
  show ?case
  proof (cases "x = c")
    case True
    then show ?thesis using Cons split_on_not_Nil [of c s]
      by (simp add: takeWhile_append)
  next
    case False
    show ?thesis
    proof (cases "c \<in> set s")
      case True
      have "last (split_on c (x # s)) = last (tl (split_on c s))"
        using split_on_has_sep [OF True] False
        by (simp add: split_on_Cons_other del: split_on.simps)
      also have "\<dots> = last (split_on c s)"
        using split_on_has_sep [OF True] split_on_not_Nil [of c s]
        by (cases "split_on c s") simp_all
      also have "\<dots> = rev (takeWhile (\<lambda>x. x \<noteq> c) (rev s))" by (rule Cons.IH)
      also have "\<dots> = rev (takeWhile (\<lambda>x. x \<noteq> c) (rev (x # s)))"
        using True by (auto simp add: takeWhile_append)
      finally show ?thesis .
    next
      case notin: False
      then show ?thesis using False
        by (simp add: split_on_no_sep takeWhile_append del: split_on.simps)
    qed
  qed
qed

lemma model_name_eq:
  "model_name p =
     takeWhile (\<lambda>x. x \<noteq> CHR ''.'') (rev (takeWhile (\<lambda>x. x \<noteq> CHR ''/'') (rev p)))"
  by (simp add: model_name_def hd_split_on last_split_on)

lemma replicate_num: "replicate (numeral k) x = x # replicate (pred_numeral k) x"
  by (simp add: numeral_eq_Suc)

lemma arange_360: "arange 0 360 10 = map (\<lambda>k. 10 * int k) [0..<36]"
  by (simp add: arange_def mult.commute)

section \<open>Loading the weights\<close>


lemma filter_ensure_dirs_mode: "filter is_mode_event (ensure_dirs ex made ds) = []"
  by (induction ds arbitrary: made) simp_all

lemma load_events_no_mode: "filter is_mode_event (load_events e a p) = []"
  by (simp add: load_events_def)

lemma load_events_no_setup: "filter is_setup_event (load_events e a p) = []"
  by (simp add: load_events_def)

lemma setup_events_no_mode: "filter is_mode_event (setup_events e a p) = []"
  by (simp add: setup_events_def filter_ensure_dirs_mode split: option.splits)

lemma load_events_prefix:
  "load_events e a p =
     [Construct (net a)] @ (if jit a then [JitScript] else []) @ [LoadStateDict p]
     @ [OrgTo (pick_device e), OrgEval, WrapGyroid, NetTo (pick_device e), NetEval,
        Print ''Total number of parameters: '']"
  by (simp add: load_events_def)

text \<open>
  Claim C7, as amended. If \<open>--pretrained\<close> is absent the run fails: the assertion
  aborts it before any network is constructed, with no effect at all. If it is present,
  the network is constructed, then passed through \<open>torch.jit.script\<close> when \<open>--jit\<close>
  is given, and then its state is loaded from that file, before the network is moved to
  the device, put in evaluation mode, wrapped or used in any other way. The model name
  is the final \<open>/\<close>-separated component of the path, cut at its first dot.
\<close>

theorem weights_loaded_after_construction:
  "(pretrained a = None \<longrightarrow>
      main e a = \<lparr>trace = [], entered = [], status = Raised AssertionError\<rparr>)
   \<and> (\<forall>p. pretrained a = Some p \<longrightarrow>
        (\<exists>rest. trace (main e a) =
            [Construct (net a)] @ (if jit a then [JitScript] else []) @ [LoadStateDict p]
            @ [OrgTo (pick_device e), OrgEval, WrapGyroid] @ rest)
        \<and> model_name p =
            takeWhile (\<lambda>c. c \<noteq> CHR ''.'') (rev (takeWhile (\<lambda>c. c \<noteq> CHR ''/'') (rev p))))"
proof (intro conjI allI impI)
  assume "pretrained a = None"
  then show "main e a = \<lparr>trace = [], entered = [], status = Raised AssertionError\<rparr>"
    by (rule main_no_weights)
next
  fix p assume p: "pretrained a = Some p"
  show "\<exists>rest. trace (main e a) =
            [Construct (net a)] @ (if jit a then [JitScript] else []) @ [LoadStateDict p]
            @ [OrgTo (pick_device e), OrgEval, WrapGyroid] @ rest"
  proof (cases "export a")
    case None
    show ?thesis
      by (simp add: main_modes [OF p None] load_events_def)
  next
    case (Some q)
    show ?thesis
      by (simp add: main_export [OF p Some] load_events_def)
  qed
next
  fix p
  show "model_name p =
            takeWhile (\<lambda>c. c \<noteq> CHR ''.'') (rev (takeWhile (\<lambda>c. c \<noteq> CHR ''/'') (rev p)))"
    by (rule model_name_eq)
qed

theorem weights_loaded_after_construction_witness:
  "pretrained args_default = Some ''_results/models/armadillo.pth''
   \<and> pretrained (args_default\<lparr>pretrained := None\<rparr>) = None
   \<and> status (main env_gpu (args_default\<lparr>pretrained := None\<rparr>)) = Raised AssertionError
   \<and> trace (main env_gpu (args_default\<lparr>pretrained := None\<rparr>)) = []
   \<and> take 2 (trace (main env_gpu args_default))
       = [Construct ''OctreeSDF'', LoadStateDict ''_results/models/armadillo.pth'']
   \<and> model_name ''_results/models/armadillo.pth'' = ''armadillo''"
proof -
  have a: "pretrained args_default = Some ''_results/models/armadillo.pth''"
    and b: "pretrained (args_default\<lparr>pretrained := None\<rparr>) = None"
    and j: "\<not> jit args_default" and n: "net args_default = ''OctreeSDF''"
    by (simp_all add: args_default_def)
  have m: "model_name ''_results/models/armadillo.pth'' = ''armadillo''"
    using weights_loaded_after_construction [of args_default env_gpu] a by simp
  from weights_loaded_after_construction [of "args_default\<lparr>pretrained := None\<rparr>" env_gpu] b
  have c: "main env_gpu (args_default\<lparr>pretrained := None\<rparr>)
             = \<lparr>trace = [], entered = [], status = Raised AssertionError\<rparr>"
    by blast
  from weights_loaded_after_construction [of args_default env_gpu] a j n
  obtain rest where "trace (main env_gpu args_default) =
      [Construct ''OctreeSDF'', LoadStateDict ''_results/models/armadillo.pth'',
       OrgTo (pick_device env_gpu), OrgEval, WrapGyroid] @ rest"
    by auto
  then have d: "take 2 (trace (main env_gpu args_default))
       = [Construct ''OctreeSDF'', LoadStateDict ''_results/models/armadillo.pth'']"
    by simp
  show ?thesis using a b c d m by simp
qed

text \<open>
  The claim as stated fails with \<open>--jit\<close>: the network is scripted before its weights
  are loaded, so loading is not the first thing done with the model.
\<close>

theorem jit_scripting_precedes_loading:
  "take 3 (trace (main env_gpu (args_default\<lparr>jit := True\<rparr>)))
     = [Construct ''OctreeSDF'', JitScript, LoadStateDict ''_results/models/armadillo.pth'']"
  by (simp add: main_def args_default_def load_events_def)

section \<open>Export, and runs without CUDA\<close>


text \<open>
  Claim C8, as amended. On every run with \<open>--export\<close>, no output directory is
  created, no renderer is constructed, and no rendering, grid evaluation or mesh
  extraction occurs. If \<open>--pretrained\<close> is given as well, the run wraps the
  gyroid-wrapped model in \<open>SOL_NGLOD\<close>, saves it to the given path as its last effect
  and exits with status 0.
\<close>

theorem export_saves_and_exits:
  assumes "export a = Some q"
  shows "filter is_setup_event (trace (main e a)) = []
         \<and> filter is_mode_event (trace (main e a)) = []
         \<and> entered (main e a) = []
         \<and> (\<forall>p. pretrained a = Some p \<longrightarrow>
               trace (main e a) = load_events e a p
                  @ [WrapSOL (wrapped_net a p), SaveSOL (SOL_NGLOD (wrapped_net a p)) q]
               \<and> status (main e a) = Exited 0)"
proof (cases "pretrained a")
  case None
  then show ?thesis by (simp add: main_no_weights)
next
  case (Some p)
  then show ?thesis
    by (simp add: main_export [OF Some assms] load_events_no_mode load_events_no_setup)
qed

theorem export_saves_and_exits_witness:
  "export (args_default\<lparr>export := Some ''armadillo.sol'', r360 := True\<rparr>) = Some ''armadillo.sol''
   \<and> filter is_setup_event
        (trace (main env_gpu (args_default\<lparr>export := Some ''armadillo.sol'', r360 := True\<rparr>))) = []
   \<and> filter is_mode_event
        (trace (main env_gpu (args_default\<lparr>export := Some ''armadillo.sol'', r360 := True\<rparr>))) = []
   \<and> status (main env_gpu (args_default\<lparr>export := Some ''armadillo.sol'', r360 := True\<rparr>))
       = Exited 0
   \<and> last (trace (main env_gpu (args_default\<lparr>export := Some ''armadillo.sol'', r360 := True\<rparr>)))
       = SaveSOL (SOL_NGLOD (GyroidLattice \<lparr>arch = ''OctreeSDF'', scripted = False,
                     weights = Some ''_results/models/armadillo.pth''\<rparr>)) ''armadillo.sol''"
proof -
  let ?a = "args_default\<lparr>export := Some ''armadillo.sol'', r360 := True\<rparr>"
  have x: "export ?a = Some ''armadillo.sol''"
    and p: "pretrained ?a = Some ''_results/models/armadillo.pth''"
    by (simp_all add: args_default_def)
  have w: "wrapped_net ?a ''_results/models/armadillo.pth''
           = GyroidLattice \<lparr>arch = ''OctreeSDF'', scripted = False,
                     weights = Some ''_results/models/armadillo.pth''\<rparr>"
    by (simp add: wrapped_net_def args_default_def)
  from export_saves_and_exits [OF x, of env_gpu] p
  have f: "filter is_setup_event (trace (main env_gpu ?a)) = []"
    and g: "filter is_mode_event (trace (main env_gpu ?a)) = []"
    and t: "trace (main env_gpu ?a) = load_events env_gpu ?a ''_results/models/armadillo.pth''
                  @ [WrapSOL (wrapped_net ?a ''_results/models/armadillo.pth''),
                     SaveSOL (SOL_NGLOD (wrapped_net ?a ''_results/models/armadillo.pth''))
                       ''armadillo.sol'']"
    and s: "status (main env_gpu ?a) = Exited 0"
    by blast+
  have l: "last (trace (main env_gpu ?a))
       = SaveSOL (SOL_NGLOD (GyroidLattice \<lparr>arch = ''OctreeSDF'', scripted = False,
                     weights = Some ''_results/models/armadillo.pth''\<rparr>)) ''armadillo.sol''"
    unfolding t w by simp
  show ?thesis using x f g s l by blast
qed

text \<open>
  The claim as stated fails on a run with \<open>--export\<close> and without \<open>--pretrained\<close>:
  the assertion stops the run, nothing is wrapped or saved.
\<close>

theorem export_without_weights_saves_nothing:
  "export (args_default\<lparr>pretrained := None, export := Some ''armadillo.sol''\<rparr>)
     = Some ''armadillo.sol''
   \<and> main env_gpu (args_default\<lparr>pretrained := None, export := Some ''armadillo.sol''\<rparr>)
     = \<lparr>trace = [], entered = [], status = Raised AssertionError\<rparr>"
  by (simp add: args_default_def main_def)

lemma shape_grid_tensor: "shape (grid_tensor pts) = [length pts, 3]"
  by (simp add: grid_tensor_def)

lemma status_sdf_grid_no_cuda:
  "\<not> cuda_available e \<Longrightarrow> sdf_grid_mode e n = \<lparr>trace = [], entered = [SdfGrid], status = Raised RuntimeError\<rparr>"
  by (simp add: sdf_grid_mode_def Let_def to_cuda0_def)

lemma status_default_no_cuda:
  "\<not> cuda_available e \<Longrightarrow>
   default_mode e n = \<lparr>trace = [Print ''[INFO] here it is'', Print ''[INFO] sdf slice''],
                       entered = [MarchingCubes], status = Raised RuntimeError\<rparr>"
  by (simp add: default_mode_def Let_def to_cuda0_def)

text \<open>
  Claim C10. \<open>GyroidLattice.forward\<close> places its gyroid tensor on \<open>cuda:0\<close>
  whatever the device of the run. On a machine without CUDA the device selection of
  the script falls back to the CPU, yet the forward pass of the wrapped network fails
  on every batch of shape \<open>(N, 3)\<close>; the grid evaluation and the mesh extraction,
  which also place their grid on \<open>cuda:0\<close>, fail before any of their effects.
\<close>

theorem forward_needs_cuda:
  assumes "\<not> cuda_available e"
  shows "pick_device e = CPU
         \<and> (\<forall>on (x :: tensor) n. shape x = [n, 3] \<longrightarrow>
               net_forward e (GyroidLattice on) x = Inl RuntimeError)
         \<and> (\<forall>p. pretrained a = Some p \<and> export a = None \<and> \<not> r360 a \<and> \<not> rsphere a \<longrightarrow>
               status (main e a) = Raised RuntimeError
               \<and> filter is_mode_event (trace (main e a)) = [])"
proof (intro conjI allI impI)
  show "pick_device e = CPU" using assms by (simp add: pick_device_def)
next
  fix on and x :: tensor and n assume "shape x = [n, 3]"
  then show "net_forward e (GyroidLattice on) x = Inl RuntimeError"
    using assms forward_no_cuda [of x n "sdf_eval e on"] by simp
next
  fix p assume h: "pretrained a = Some p \<and> export a = None \<and> \<not> r360 a \<and> \<not> rsphere a"
  then have m: "main e a = after (load_events e a p @ setup_events e a p) (run_mode e a p)"
    by (simp add: main_modes)
  have r: "status (run_mode e a p) = Raised RuntimeError \<and> filter is_mode_event (trace (run_mode e a p)) = []"
    using h assms by (simp add: run_mode_def status_sdf_grid_no_cuda status_default_no_cuda)
  show "status (main e a) = Raised RuntimeError" using m r by simp
  show "filter is_mode_event (trace (main e a)) = []"
    using m r by (simp add: load_events_no_mode setup_events_no_mode)
qed

theorem forward_needs_cuda_witness:
  "\<not> cuda_available env_cpu \<and> pick_device env_cpu = CPU
   \<and> net_forward env_cpu (GyroidLattice \<lparr>arch = ''OctreeSDF'', scripted = False,
          weights = Some ''_results/models/armadillo.pth''\<rparr>) batch2 = Inl RuntimeError
   \<and> status (main env_cpu args_default) = Raised RuntimeError
   \<and> status (main env_cpu (args_default\<lparr>sdf_grid := True\<rparr>)) = Raised RuntimeError"
proof -
  have c: "\<not> cuda_available env_cpu" by (simp add: env_cpu_def env_gpu_def)
  have a1: "pretrained args_default = Some ''_results/models/armadillo.pth'' \<and> export args_default = None
            \<and> \<not> r360 args_default \<and> \<not> rsphere args_default"
    by (simp add: args_default_def)
  have a2: "pretrained (args_default\<lparr>sdf_grid := True\<rparr>) = Some ''_results/models/armadillo.pth''
            \<and> export (args_default\<lparr>sdf_grid := True\<rparr>) = None
            \<and> \<not> r360 (args_default\<lparr>sdf_grid := True\<rparr>) \<and> \<not> rsphere (args_default\<lparr>sdf_grid := True\<rparr>)"
    by (simp add: args_default_def)
  show ?thesis
    using forward_needs_cuda [OF c, of args_default] forward_needs_cuda [OF c, of "args_default\<lparr>sdf_grid := True\<rparr>"]
      a1 a2 c batch2_facts(1)
    by blast
qed

section \<open>Networks handed on\<close>

lemma nets_handed_append [simp]: "nets_handed (xs @ ys) = nets_handed xs @ nets_handed ys"
  by (simp add: nets_handed_def)

lemma nets_handed_Nil [simp]: "nets_handed [] = []"
  by (simp add: nets_handed_def)

lemma nets_handed_Cons [simp]: "nets_handed (ev # tr) = handed ev @ nets_handed tr"
  by (simp add: nets_handed_def)

lemma nets_handed_ensure_dirs [simp]: "nets_handed (ensure_dirs ex made ds) = []"
  by (induction ds arbitrary: made) simp_all

lemma nets_handed_load [simp]: "nets_handed (load_events e a p) = []"
  by (simp add: load_events_def)

lemma nets_handed_setup:
  "nets_handed (setup_events e a p)
     = (if sol a then [wrapped_net a p] else []) @ [render_net a p]"
  by (simp add: setup_events_def split: option.splits)

lemma nets_handed_r360_step [simp]: "nets_handed (r360_step a d angle) = []"
  by (simp add: r360_step_def Let_def)

lemma nets_handed_concat_none:
  "(\<And>x. x \<in> set xs \<Longrightarrow> nets_handed (f x) = []) \<Longrightarrow> nets_handed (concat (map f xs)) = []"
  by (induction xs) simp_all

lemma nets_handed_r360 [simp]: "nets_handed (trace (r360_mode a d)) = []"
  by (simp add: r360_mode_def nets_handed_concat_none)

lemma nets_handed_rsphere_step [simp]: "nets_handed (rsphere_step a d mm pose) = []"
  by (cases pose) (simp add: rsphere_step_def Let_def write_exr_def)

lemma nets_handed_rsphere [simp]: "nets_handed (trace (rsphere_mode e a d mm)) = []"
  by (simp add: rsphere_mode_def Let_def nets_handed_concat_none)

lemma sol_inputs_simps [simp]:
  "sol_inputs [] = []"
  "sol_inputs (ev # tr) = sol_input ev @ sol_inputs tr"
  "sol_inputs (xs @ ys) = sol_inputs xs @ sol_inputs ys"
  by (simp_all add: sol_inputs_def)

lemma mode_nets_simps [simp]:
  "mode_nets [] = []"
  "mode_nets (ev # tr) = mode_net ev @ mode_nets tr"
  "mode_nets (xs @ ys) = mode_nets xs @ mode_nets ys"
  by (simp_all add: mode_nets_def)

lemma receivers_ensure_dirs [simp]:
  "sol_inputs (ensure_dirs ex made ds) = []"
  "mode_nets (ensure_dirs ex made ds) = []"
  by (induction ds arbitrary: made) simp_all

lemma receivers_load [simp]:
  "sol_inputs (load_events e a p) = []"
  "mode_nets (load_events e a p) = []"
  by (simp_all add: load_events_def)

lemma receivers_setup:
  "sol_inputs (setup_events e a p) = (if sol a then [wrapped_net a p] else [])"
  "mode_nets (setup_events e a p) = [render_net a p]"
  by (simp_all add: setup_events_def split: option.splits)

lemma receivers_concat_none:
  "(\<And>x. x \<in> set xs \<Longrightarrow> sol_inputs (f x) = []) \<Longrightarrow> sol_inputs (concat (map f xs)) = []"
  "(\<And>x. x \<in> set xs \<Longrightarrow> mode_nets (f x) = []) \<Longrightarrow> mode_nets (concat (map f xs)) = []"
  by (induction xs) simp_all

lemma receivers_r360 [simp]:
  "sol_inputs (trace (r360_mode a d)) = []"
  "mode_nets (trace (r360_mode a d)) = []"
  by (simp_all add: r360_mode_def receivers_concat_none r360_step_def Let_def)

lemma receivers_rsphere_step [simp]:
  "sol_inputs (rsphere_step a d mm pose) = []"
  "mode_nets (rsphere_step a d mm pose) = []"
  by (cases pose; simp add: rsphere_step_def Let_def write_exr_def)+

lemma receivers_rsphere [simp]:
  "sol_inputs (trace (rsphere_mode e a d mm)) = []"
  "mode_nets (trace (rsphere_mode e a d mm)) = []"
  by (simp_all add: rsphere_mode_def Let_def receivers_concat_none)

lemma receivers_sdf_grid:
  "sol_inputs (trace (sdf_grid_mode e n)) = []"
  "list_all (\<lambda>m. m = n) (mode_nets (trace (sdf_grid_mode e n)))"
  by (simp_all add: sdf_grid_mode_def Let_def split: sum.splits)

lemma receivers_default:
  "sol_inputs (trace (default_mode e n)) = []"
  "list_all (\<lambda>m. m = n) (mode_nets (trace (default_mode e n)))"
  by (simp_all add: default_mode_def Let_def split: sum.splits)

lemma receivers_run_mode:
  "sol_inputs (trace (run_mode e a p)) = []"
  "list_all (\<lambda>m. m = render_net a p) (mode_nets (trace (run_mode e a p)))"
  by (simp_all add: run_mode_def receivers_sdf_grid receivers_default)

text \<open>
  Claim C1, as amended. On every run that reaches model construction, the network
  passed to the constructor \<open>SOL_NGLOD\<close> (by the export, and by \<open>--sol\<close>) is the loaded
  pretrained network wrapped by the gyroid lattice modifier; there is one such call
  on a run with \<open>--export\<close> or \<open>--sol\<close> and none otherwise. The network handed to the
  renderer, the grid evaluation and the mesh extraction is that lattice wrapper when
  \<open>--sol\<close> is not given, and the \<open>SOL_NGLOD\<close> wrapper of it instead when \<open>--sol\<close> is
  given; a run without \<open>--export\<close> hands it to the renderer first, a run with
  \<open>--export\<close> hands no network to a renderer or a mode. On a machine with CUDA, for
  every batch \<open>x\<close> of shape \<open>(N, 3)\<close> on which the loaded network returns shape
  \<open>(N, 1)\<close>, the forward value of the lattice wrapper at row \<open>i\<close> is the maximum of the
  network's value at row \<open>i\<close> and the gyroid implicit value of the point in row \<open>i\<close>.
\<close>

theorem lattice_net_handed_to_modes:
  assumes "pretrained a = Some p"
  shows "sol_inputs (trace (main e a))
           = (if export a = None \<and> \<not> sol a then [] else [wrapped_net a p])
         \<and> list_all (\<lambda>m. m = (if sol a then SOL_NGLOD (wrapped_net a p) else wrapped_net a p))
              (mode_nets (trace (main e a)))
         \<and> (if export a = None
             then \<exists>rest. mode_nets (trace (main e a))
                    = (if sol a then SOL_NGLOD (wrapped_net a p) else wrapped_net a p) # rest
             else mode_nets (trace (main e a)) = [])
         \<and> wrapped_net a p = GyroidLattice \<lparr>arch = net a, scripted = jit a, weights = Some p\<rparr>
         \<and> (\<forall>(x :: tensor) n i.
               cuda_available e \<and> shape x = [n, 3] \<and> wf_tensor x
               \<and> shape (sdf_eval e \<lparr>arch = net a, scripted = jit a, weights = Some p\<rparr> x) = [n, 1]
               \<and> wf_tensor (sdf_eval e \<lparr>arch = net a, scripted = jit a, weights = Some p\<rparr> x)
               \<and> i < n \<longrightarrow>
               (\<exists>r. net_forward e (wrapped_net a p) x = Inr r \<and> shape r = [n, 1]
                  \<and> elems r ! i =
                      max (elems (sdf_eval e \<lparr>arch = net a, scripted = jit a, weights = Some p\<rparr> x) ! i)
                          (gyroid_implicit (elems x ! (i * 3)) (elems x ! (i * 3 + 1))
                                           (elems x ! (i * 3 + 2)))))"
proof -
  let ?G = "wrapped_net a p"
  let ?R = "if sol a then SOL_NGLOD ?G else ?G"
  have nets: "sol_inputs (trace (main e a)) = (if export a = None \<and> \<not> sol a then [] else [?G])
        \<and> list_all (\<lambda>m. m = ?R) (mode_nets (trace (main e a)))
        \<and> (if export a = None then \<exists>rest. mode_nets (trace (main e a)) = ?R # rest
            else mode_nets (trace (main e a)) = [])"
  proof (cases "export a")
    case (Some q)
    show ?thesis by (simp add: main_export [OF assms Some] Some)
  next
    case None
    have r: "list_all (\<lambda>m. m = ?R) (mode_nets (trace (run_mode e a p)))"
      using receivers_run_mode(2) [of a p e] by (simp add: render_net_def)
    have s: "sol_inputs (trace (main e a)) = (if sol a then [?G] else [])"
      by (simp add: main_modes [OF assms None] receivers_setup receivers_run_mode)
    have m: "mode_nets (trace (main e a)) = ?R # mode_nets (trace (run_mode e a p))"
      by (simp add: main_modes [OF assms None] receivers_setup render_net_def)
    show ?thesis using r s m None by simp
  qed
  have w: "?G = GyroidLattice \<lparr>arch = net a, scripted = jit a, weights = Some p\<rparr>"
    by (simp add: wrapped_net_def)
  have f: "\<exists>r. net_forward e ?G x = Inr r \<and> shape r = [n, 1]
                  \<and> elems r ! i =
                      max (elems (sdf_eval e \<lparr>arch = net a, scripted = jit a, weights = Some p\<rparr> x) ! i)
                          (gyroid_implicit (elems x ! (i * 3)) (elems x ! (i * 3 + 1))
                                           (elems x ! (i * 3 + 2)))"
    if h: "cuda_available e \<and> shape x = [n, 3] \<and> wf_tensor x
               \<and> shape (sdf_eval e \<lparr>arch = net a, scripted = jit a, weights = Some p\<rparr> x) = [n, 1]
               \<and> wf_tensor (sdf_eval e \<lparr>arch = net a, scripted = jit a, weights = Some p\<rparr> x)
               \<and> i < n"
    for x :: tensor and n i
  proof -
    let ?sdf = "sdf_eval e \<lparr>arch = net a, scripted = jit a, weights = Some p\<rparr>"
    have "GyroidLattice_forward True ?sdf x =
           Inr \<lparr>shape = [n, 1],
                elems = map (\<lambda>i. max (gyroid_implicit (elems x ! (i * 3)) (elems x ! (i * 3 + 1))
                                                       (elems x ! (i * 3 + 2)))
                                      (elems (?sdf x) ! i)) [0..<n]\<rparr>"
      using h forward_rows [of x n ?sdf] by blast
    then show ?thesis using h by (simp add: wrapped_net_def max.commute)
  qed
  show ?thesis using nets w f by blast
qed

lemma gyroid_implicit_origin: "gyroid_implicit 0 0 0 = - (1 / 4)"
  by (simp add: gyroid_implicit_def power2_eq_square)

theorem lattice_net_handed_to_modes_witness:
  "pretrained (args_default\<lparr>sol := True, r360 := True\<rparr>) = Some ''_results/models/armadillo.pth''
   \<and> sol_inputs (trace (main env_gpu (args_default\<lparr>sol := True, r360 := True\<rparr>)))
       = [GyroidLattice \<lparr>arch = ''OctreeSDF'', scripted = False,
                          weights = Some ''_results/models/armadillo.pth''\<rparr>]
   \<and> hd (mode_nets (trace (main env_gpu (args_default\<lparr>sol := True, r360 := True\<rparr>))))
       = SOL_NGLOD (GyroidLattice \<lparr>arch = ''OctreeSDF'', scripted = False,
                          weights = Some ''_results/models/armadillo.pth''\<rparr>)
   \<and> (\<exists>r. net_forward env_gpu
             (wrapped_net (args_default\<lparr>sol := True, r360 := True\<rparr>) ''_results/models/armadillo.pth'')
             batch2 = Inr r
          \<and> shape r = [2, 1] \<and> elems r ! 1 = 1)"
proof -
  let ?p = "''_results/models/armadillo.pth''"
  let ?a = "args_default\<lparr>sol := True, r360 := True\<rparr>"
  let ?on = "\<lparr>arch = net ?a, scripted = jit ?a, weights = Some ?p\<rparr>"
  have a: "pretrained ?a = Some ?p" and x: "export ?a = None" and so: "sol ?a"
    by (simp_all add: args_default_def)
  have g: "GyroidLattice ?on = GyroidLattice \<lparr>arch = ''OctreeSDF'', scripted = False,
                          weights = Some ?p\<rparr>"
    by (simp add: args_default_def)
  have s: "sdf_eval env_gpu ?on batch2 = \<lparr>shape = [2, 1], elems = [1, 1]\<rparr>"
    by (simp add: env_gpu_def batch2_def numeral_2_eq_2)
  have h: "cuda_available env_gpu \<and> shape batch2 = [2, 3] \<and> wf_tensor batch2
        \<and> shape (sdf_eval env_gpu ?on batch2) = [2, 1] \<and> wf_tensor (sdf_eval env_gpu ?on batch2)
        \<and> (1 :: nat) < 2"
    by (simp add: batch2_def wf_tensor_def env_gpu_def numeral_2_eq_2)
  note t = lattice_net_handed_to_modes [OF a, of env_gpu]
  from t have w: "wrapped_net ?a ?p = GyroidLattice ?on" by blast
  from t x so have si: "sol_inputs (trace (main env_gpu ?a)) = [wrapped_net ?a ?p]"
    by simp
  from t x so obtain rest where
    "mode_nets (trace (main env_gpu ?a)) = SOL_NGLOD (wrapped_net ?a ?p) # rest"
    by auto
  then have mn: "hd (mode_nets (trace (main env_gpu ?a))) = SOL_NGLOD (wrapped_net ?a ?p)"
    by simp
  from t h obtain r where r: "net_forward env_gpu (wrapped_net ?a ?p) batch2 = Inr r"
      "shape r = [2, 1]"
      "elems r ! 1 = max (elems (sdf_eval env_gpu ?on batch2) ! 1)
                          (gyroid_implicit (elems batch2 ! (1 * 3)) (elems batch2 ! (1 * 3 + 1))
                                           (elems batch2 ! (1 * 3 + 2)))"
    by blast
  have v: "elems r ! 1 = 1"
    unfolding r(3) s by (simp add: batch2_def gyroid_implicit_origin)
  show ?thesis using a si mn r(1,2) v unfolding w g by blast
qed

text \<open>
  The claim as stated fails with \<open>--sol\<close>: the renderer is constructed over the
  \<open>SOL_NGLOD\<close> wrapper, not over the lattice wrapper itself.
\<close>

theorem sol_wrapper_handed_to_renderer:
  "nets_handed (trace (main env_gpu (args_default\<lparr>sol := True, r360 := True\<rparr>)))
     = [GyroidLattice \<lparr>arch = ''OctreeSDF'', scripted = False,
                        weights = Some ''_results/models/armadillo.pth''\<rparr>,
        SOL_NGLOD (GyroidLattice \<lparr>arch = ''OctreeSDF'', scripted = False,
                        weights = Some ''_results/models/armadillo.pth''\<rparr>)]"
  by (simp add: main_def run_mode_def nets_handed_setup render_net_def wrapped_net_def
      args_default_def)

section \<open>Grids\<close>

lemma length_concat_const:
  "(\<And>x. x \<in> set xs \<Longrightarrow> length (f x) = c) \<Longrightarrow> length (concat (map f xs)) = length xs * c"
  by (induction xs) simp_all

lemma length_linspace [simp]: "length (linspace lo hi n) = n"
  by (simp add: linspace_def)

lemma nth_linspace:
  "i < n \<Longrightarrow> linspace lo hi n ! i = lo + real i * ((hi - lo) / real (n - 1))"
  by (simp add: linspace_def)

lemma linspace_ends:
  "2 \<le> n \<Longrightarrow> hd (linspace lo hi n) = lo \<and> last (linspace lo hi n) = hi"
proof -
  assume n: "2 \<le> n"
  then have ne: "linspace lo hi n \<noteq> []" by (simp add: linspace_def)
  have "hd (linspace lo hi n) = linspace lo hi n ! 0" using ne by (simp add: hd_conv_nth)
  also have "\<dots> = lo" using n by (simp add: nth_linspace)
  finally have h: "hd (linspace lo hi n) = lo" .
  have "last (linspace lo hi n) = linspace lo hi n ! (n - 1)"
    using ne by (simp add: last_conv_nth)
  also have "\<dots> = lo + real (n - 1) * ((hi - lo) / real (n - 1))"
    using n by (simp add: nth_linspace)
  also have "\<dots> = hi" using n by simp
  finally show ?thesis using h by simp
qed

lemma grid_of_linspaces:
  "[(x, y, z). x \<leftarrow> linspace (fst xr) (snd xr) n, y \<leftarrow> linspace (fst yr) (snd yr) n,
               z \<leftarrow> linspace (fst zr) (snd zr) n]
   = uniform_grid xr yr zr n"
  by (simp add: linspace_def uniform_grid_def map_concat comp_def)

lemma length_uniform_grid: "length (uniform_grid xr yr zr n) = n * n * n"
proof -
  have "length (uniform_grid xr yr zr n) = length [0..<n] * (n * n)"
    unfolding uniform_grid_def
    by (rule length_concat_const) (simp add: length_concat_const [where c = n])
  then show ?thesis by (simp add: mult.assoc)
qed

lemma length_grid_elems: "length (elems (grid_tensor pts)) = length pts * 3"
proof -
  have "length (concat (map (\<lambda>(x, y, z). [x, y, z]) pts)) = length pts * 3"
    by (rule length_concat_const) auto
  then show ?thesis by (simp add: grid_tensor_def)
qed

lemma wf_grid_tensor: "wf_tensor (grid_tensor pts)"
  by (simp add: wf_tensor_def length_grid_elems) (simp add: grid_tensor_def)

lemma reshape_grid_tensor: "reshape_rows (grid_tensor pts) 3 = Inr (grid_tensor pts)"
  by (simp add: reshape_rows_def length_grid_elems) (simp add: grid_tensor_def)

section \<open>Mesh extraction\<close>

lemma default_grid:
  "[(x, y, z). x \<leftarrow> linspace (- 1) 1 150, y \<leftarrow> linspace (- 0.3) 0.5 150,
               z \<leftarrow> linspace (- 0.3) 0.8 150]
   = uniform_grid (- 1, 1) (- 0.3, 0.5) (- 0.3, 0.8) 150"
  using grid_of_linspaces [where xr = "(- 1, 1)" and yr = "(- 0.3, 0.5)" and zr = "(- 0.3, 0.8)"
      and n = 150] by simp

lemma sdf_grid_grid:
  "[(x, y, z). x \<leftarrow> linspace (- 1.1) 1.1 150, y \<leftarrow> linspace (- 1.1) 1.1 150,
               z \<leftarrow> linspace (- 1.1) 1.1 150]
   = uniform_grid (- 1.1, 1.1) (- 1.1, 1.1) (- 1.1, 1.1) 150"
  using grid_of_linspaces [where xr = "(- 1.1, 1.1)" and yr = "(- 1.1, 1.1)"
      and zr = "(- 1.1, 1.1)" and n = 150] by simp

lemma default_mode_cuda:
  assumes "cuda_available e"
  shows "default_mode e n =
     (case net_forward e n march_grid of
        Inl err \<Rightarrow> \<lparr>trace = [Print ''[INFO] here it is'', Print ''[INFO] sdf slice'',
                              Forward n march_grid False],
                     entered = [MarchingCubes], status = Raised err\<rparr>
      | Inr sdf \<Rightarrow> \<lparr>trace = [Print ''[INFO] here it is'', Print ''[INFO] sdf slice'',
                              Forward n march_grid False, March march_grid sdf,
                              SaveMesh ''./marched_gyroid.obj''],
                     entered = [MarchingCubes], status = Completed\<rparr>)"
  unfolding default_mode_def Let_def default_grid
  using assms by (simp add: to_cuda0_def reshape_grid_tensor march_grid_def split: sum.splits)

lemma sdf_grid_mode_cuda:
  assumes "cuda_available e"
  shows "sdf_grid_mode e n =
     (case net_forward e n csv_grid of
        Inl err \<Rightarrow> \<lparr>trace = [Print ''shape of torch grid: '', NetEval, Forward n csv_grid True],
                     entered = [SdfGrid], status = Raised err\<rparr>
      | Inr sdf \<Rightarrow> \<lparr>trace = [Print ''shape of torch grid: '', NetEval, Forward n csv_grid True,
                              Print ''shape of sdf grid: '', Print []],
                     entered = [SdfGrid], status = Raised TypeError\<rparr>)"
  unfolding sdf_grid_mode_def Let_def sdf_grid_grid
  using assms by (simp add: to_cuda0_def csv_grid_def split: sum.splits)

lemma shape_march_grid: "shape march_grid = [150 * 150 * 150, 3]"
  by (simp add: march_grid_def shape_grid_tensor length_uniform_grid)

lemma shape_csv_grid: "shape csv_grid = [150 * 150 * 150, 3]"
  by (simp add: csv_grid_def shape_grid_tensor length_uniform_grid)

text \<open>
  Claim C4. In the default mode (a run with \<open>--pretrained\<close> and none of \<open>--r360\<close>,
  \<open>--rsphere\<close>, \<open>--sdf_grid\<close>, \<open>--export\<close>) the program extracts a mesh: it evaluates
  the network of the run, with gradients disabled, on the uniform grid of
  \<open>150 \<times> 150 \<times> 150\<close> points over \<open>[-1, 1] \<times> [-0.3, 0.5] \<times> [-0.3, 0.8]\<close>, passes the grid
  and the SDF values to the cube marcher, and saves the mesh to
  \<open>./marched_gyroid.obj\<close> as its last effect. The grid is placed on \<open>cuda:0\<close>, so the
  machine has CUDA, and the evaluation of the network on the grid succeeds.
\<close>

theorem default_mode_extracts_mesh:
  assumes "pretrained a = Some p" and "export a = None"
    and "\<not> r360 a" and "\<not> rsphere a" and "\<not> sdf_grid a"
    and "cuda_available e"
    and "net_forward e (render_net a p) march_grid = Inr sdf"
  shows "(\<exists>pre. trace (main e a) =
             pre @ [Forward (render_net a p) march_grid False, March march_grid sdf,
                    SaveMesh ''./marched_gyroid.obj'']
             \<and> filter is_mode_event pre = [])
         \<and> status (main e a) = Completed
         \<and> entered (main e a) = [MarchingCubes]
         \<and> march_grid = grid_tensor (uniform_grid (- 1, 1) (- 0.3, 0.5) (- 0.3, 0.8) 150)
         \<and> shape march_grid = [150 * 150 * 150, 3]"
proof -
  have m: "main e a = after (load_events e a p @ setup_events e a p) (default_mode e (render_net a p))"
    using assms(1-5) by (simp add: main_modes run_mode_def)
  have d: "default_mode e (render_net a p) =
       \<lparr>trace = [Print ''[INFO] here it is'', Print ''[INFO] sdf slice'',
                 Forward (render_net a p) march_grid False, March march_grid sdf,
                 SaveMesh ''./marched_gyroid.obj''],
        entered = [MarchingCubes], status = Completed\<rparr>"
    by (simp add: default_mode_cuda [OF assms(6)] assms(7))
  let ?pre = "load_events e a p @ setup_events e a p
              @ [Print ''[INFO] here it is'', Print ''[INFO] sdf slice'']"
  have "trace (main e a) = ?pre @ [Forward (render_net a p) march_grid False,
            March march_grid sdf, SaveMesh ''./marched_gyroid.obj'']"
    by (simp add: m d)
  moreover have "filter is_mode_event ?pre = []"
    by (simp add: load_events_no_mode setup_events_no_mode)
  ultimately have "\<exists>pre. trace (main e a) =
             pre @ [Forward (render_net a p) march_grid False, March march_grid sdf,
                    SaveMesh ''./marched_gyroid.obj'']
             \<and> filter is_mode_event pre = []"
    by blast
  then show ?thesis
    by (simp add: m d shape_march_grid) (simp add: march_grid_def)
qed

lemma wf_march_grid: "wf_tensor march_grid"
  by (simp add: march_grid_def wf_grid_tensor)

lemma wf_csv_grid: "wf_tensor csv_grid"
  by (simp add: csv_grid_def wf_grid_tensor)

lemma env_gpu_forward_ok:
  assumes "shape x = [n, 3]" and "wf_tensor x"
  shows "\<exists>r. net_forward env_gpu (GyroidLattice on) x = Inr r"
proof -
  have c: "cuda_available env_gpu" by (simp add: env_gpu_def)
  have s: "shape (sdf_eval env_gpu on x) = [n, 1]" using assms(1) by (simp add: env_gpu_def)
  from forward_shape [of x n "sdf_eval env_gpu on", OF assms s] c
  show ?thesis by auto
qed

theorem default_mode_extracts_mesh_witness:
  "pretrained args_default = Some ''_results/models/armadillo.pth''
   \<and> export args_default = None \<and> \<not> r360 args_default \<and> \<not> rsphere args_default
   \<and> \<not> sdf_grid args_default \<and> cuda_available env_gpu
   \<and> status (main env_gpu args_default) = Completed
   \<and> entered (main env_gpu args_default) = [MarchingCubes]
   \<and> last (trace (main env_gpu args_default)) = SaveMesh ''./marched_gyroid.obj''"
proof -
  let ?p = "''_results/models/armadillo.pth''"
  have a: "pretrained args_default = Some ?p" "export args_default = None"
    "\<not> r360 args_default" "\<not> rsphere args_default" "\<not> sdf_grid args_default"
    by (simp_all add: args_default_def)
  have c: "cuda_available env_gpu" by (simp add: env_gpu_def)
  have n: "render_net args_default ?p
             = GyroidLattice \<lparr>arch = ''OctreeSDF'', scripted = False, weights = Some ?p\<rparr>"
    by (simp add: render_net_def wrapped_net_def args_default_def)
  obtain sdf where f: "net_forward env_gpu (render_net args_default ?p) march_grid = Inr sdf"
    unfolding n using env_gpu_forward_ok [OF shape_march_grid wf_march_grid] by blast
  from default_mode_extracts_mesh [OF a c f]
  obtain pre where t: "trace (main env_gpu args_default) =
             pre @ [Forward (render_net args_default ?p) march_grid False, March march_grid sdf,
                    SaveMesh ''./marched_gyroid.obj'']"
    and s: "status (main env_gpu args_default) = Completed"
    and m: "entered (main env_gpu args_default) = [MarchingCubes]"
    by blast
  have l: "last (trace (main env_gpu args_default)) = SaveMesh ''./marched_gyroid.obj''"
    unfolding t by simp
  show ?thesis using a c s m l by blast
qed

section \<open>Dense grid evaluation\<close>

lemma filter_savetxt_ensure_dirs [simp]: "filter is_savetxt (ensure_dirs ex made ds) = []"
  by (induction ds arbitrary: made) simp_all

lemma filter_concat_none:
  "(\<And>x. x \<in> set xs \<Longrightarrow> filter P (f x) = []) \<Longrightarrow> filter P (concat (map f xs)) = []"
  by (induction xs) simp_all

lemma no_savetxt_run_mode: "filter is_savetxt (trace (run_mode e a p)) = []"
proof -
  have r: "filter is_savetxt (trace (r360_mode a d)) = []" for d
    by (simp add: r360_mode_def filter_concat_none r360_step_def Let_def)
  have s: "filter is_savetxt (trace (rsphere_mode e a d mm)) = []" for d mm
    by (simp add: rsphere_mode_def Let_def filter_concat_none rsphere_step_def write_exr_def
        split: prod.splits)
  have g: "filter is_savetxt (trace (sdf_grid_mode e n)) = []" for n
    by (simp add: sdf_grid_mode_def Let_def split: sum.splits)
  have d: "filter is_savetxt (trace (default_mode e n)) = []" for n
    by (simp add: default_mode_def Let_def split: sum.splits)
  show ?thesis by (simp add: run_mode_def r s g d)
qed

lemma no_run_writes_csv: "filter is_savetxt (trace (main e a)) = []"
proof (cases "pretrained a")
  case None
  then show ?thesis by (simp add: main_no_weights)
next
  case (Some p)
  show ?thesis
  proof (cases "export a")
    case None
    show ?thesis
      by (simp add: main_modes [OF Some None] no_savetxt_run_mode load_events_def
          setup_events_def split: option.splits)
  next
    case (Some q)
    show ?thesis
      by (simp add: main_export [OF \<open>pretrained a = Some p\<close> Some] load_events_def)
  qed
qed

text \<open>
  Claim C3. In dense grid evaluation mode the program builds the uniform grid of
  \<open>150\<close> samples per dimension over \<open>[-1.1, 1.1]\<^sup>3\<close> and evaluates the network of the
  run on it. On every run where this evaluation succeeds, the next call,
  \<open>np.hstack(sdf, grid)\<close> with two positional arguments, raises \<open>TypeError\<close>: the run
  ends with that exception, \<open>sdf.csv\<close> is not written, and the mode does not complete.
  The claim says that the file is written and the mode completes.
\<close>

theorem sdf_grid_mode_raises_before_csv:
  assumes "pretrained a = Some p" and "export a = None"
    and "\<not> r360 a" and "\<not> rsphere a" and "sdf_grid a"
    and "cuda_available e"
    and "net_forward e (render_net a p) csv_grid = Inr sdf"
  shows "status (main e a) = Raised TypeError
         \<and> filter is_savetxt (trace (main e a)) = []
         \<and> (\<exists>pre. trace (main e a) =
               pre @ [Forward (render_net a p) csv_grid True,
                      Print ''shape of sdf grid: '', Print []])
         \<and> np_hstack [Arr sdf, Arr csv_grid] = Inl TypeError"
proof -
  have m: "main e a = after (load_events e a p @ setup_events e a p) (sdf_grid_mode e (render_net a p))"
    using assms(1-5) by (simp add: main_modes run_mode_def)
  have d: "sdf_grid_mode e (render_net a p) =
       \<lparr>trace = [Print ''shape of torch grid: '', NetEval, Forward (render_net a p) csv_grid True,
                 Print ''shape of sdf grid: '', Print []],
        entered = [SdfGrid], status = Raised TypeError\<rparr>"
    by (simp add: sdf_grid_mode_cuda [OF assms(6)] assms(7))
  have "trace (main e a) =
          (load_events e a p @ setup_events e a p @ [Print ''shape of torch grid: '', NetEval])
          @ [Forward (render_net a p) csv_grid True, Print ''shape of sdf grid: '', Print []]"
    by (simp add: m d)
  then have "\<exists>pre. trace (main e a) =
               pre @ [Forward (render_net a p) csv_grid True,
                      Print ''shape of sdf grid: '', Print []]"
    by blast
  moreover have "filter is_savetxt (trace (main e a)) = []" by (rule no_run_writes_csv)
  moreover have "status (main e a) = Raised TypeError" by (simp add: m d)
  ultimately show ?thesis by simp
qed

theorem sdf_grid_mode_raises_before_csv_witness:
  "pretrained (args_default\<lparr>sdf_grid := True\<rparr>) = Some ''_results/models/armadillo.pth''
   \<and> export (args_default\<lparr>sdf_grid := True\<rparr>) = None
   \<and> \<not> r360 (args_default\<lparr>sdf_grid := True\<rparr>) \<and> \<not> rsphere (args_default\<lparr>sdf_grid := True\<rparr>)
   \<and> sdf_grid (args_default\<lparr>sdf_grid := True\<rparr>) \<and> cuda_available env_gpu
   \<and> status (main env_gpu (args_default\<lparr>sdf_grid := True\<rparr>)) = Raised TypeError
   \<and> filter is_savetxt (trace (main env_gpu (args_default\<lparr>sdf_grid := True\<rparr>))) = []"
proof -
  let ?p = "''_results/models/armadillo.pth''"
  let ?a = "args_default\<lparr>sdf_grid := True\<rparr>"
  have a: "pretrained ?a = Some ?p" "export ?a = None"
    "\<not> r360 ?a" "\<not> rsphere ?a" "sdf_grid ?a"
    by (simp_all add: args_default_def)
  have c: "cuda_available env_gpu" by (simp add: env_gpu_def)
  have n: "render_net ?a ?p
             = GyroidLattice \<lparr>arch = ''OctreeSDF'', scripted = False, weights = Some ?p\<rparr>"
    by (simp add: render_net_def wrapped_net_def args_default_def)
  obtain sdf where f: "net_forward env_gpu (render_net ?a ?p) csv_grid = Inr sdf"
    unfolding n using env_gpu_forward_ok [OF shape_csv_grid wf_csv_grid] by blast
  from sdf_grid_mode_raises_before_csv [OF a c f]
  have "status (main env_gpu ?a) = Raised TypeError"
    and "filter is_savetxt (trace (main env_gpu ?a)) = []"
    by blast+
  then show ?thesis using a c by blast
qed

section \<open>Rendering modes\<close>

lemma shades_simps [simp]:
  "shades [] = []"
  "shades (ev # tr) = shade_of ev @ shades tr"
  "shades (xs @ ys) = shades xs @ shades ys"
  by (simp_all add: shades_def)

lemma pngs_simps [simp]:
  "pngs [] = []"
  "pngs (ev # tr) = png_of ev @ pngs tr"
  "pngs (xs @ ys) = pngs xs @ pngs ys"
  by (simp_all add: pngs_def)

lemma exrs_simps [simp]:
  "exrs [] = []"
  "exrs (ev # tr) = exr_of ev @ exrs tr"
  "exrs (xs @ ys) = exrs xs @ exrs ys"
  by (simp_all add: exrs_def)

lemma shades_concat: "shades (concat (map f xs)) = concat (map (\<lambda>x. shades (f x)) xs)"
  by (induction xs) simp_all

lemma pngs_concat: "pngs (concat (map f xs)) = concat (map (\<lambda>x. pngs (f x)) xs)"
  by (induction xs) simp_all

lemma exrs_concat: "exrs (concat (map f xs)) = concat (map (\<lambda>x. exrs (f x)) xs)"
  by (induction xs) simp_all

lemma projections_of_setup:
  assumes "filter is_mode_event pre = []"
  shows "shades pre = [] \<and> pngs pre = [] \<and> exrs pre = []"
  using assms
proof (induction pre)
  case Nil
  show ?case by simp
next
  case (Cons ev pre)
  then show ?case by (cases ev) (simp_all split: if_splits)
qed

lemma r360_step_eq:
  "r360_step a d angle =
     [ShadeImages (spin_call a angle),
      SavePng (d @ ''/rgb/'' @ fmt06d \<lfloor>100 * (of_int angle :: real)\<rfloor> @ ''.png'') Rgb
        (spin_call a angle)]"
  by (simp add: r360_step_def Let_def spin_call_def rotation_about_def spin_axis_def scale3_def)

lemma spin_axis_unit:
  "(case spin_axis of (x, y, z) \<Rightarrow> x\<^sup>2 + y\<^sup>2 + z\<^sup>2) = 1"
  by (simp add: spin_axis_def power2_eq_square)

lemma spin_projections:
  "shades (concat (map (\<lambda>x. [ShadeImages (c x), SavePng (f x) ch (c x)]) xs)) = map c xs"
  "pngs (concat (map (\<lambda>x. [ShadeImages (c x), SavePng (f x) ch (c x)]) xs))
     = map (\<lambda>x. (f x, ch, c x)) xs"
  "exrs (concat (map (\<lambda>x. [ShadeImages (c x), SavePng (f x) ch (c x)]) xs)) = []"
  by (induction xs) simp_all

lemma r360_mode_trace:
  "trace (r360_mode a d) =
     concat (map (\<lambda>angle.
                [ShadeImages (spin_call a angle),
                 SavePng (d @ ''/rgb/'' @ fmt06d \<lfloor>100 * (of_int angle :: real)\<rfloor> @ ''.png'')
                         Rgb (spin_call a angle)])
             (map (\<lambda>k. 10 * int k) [0..<36]))"
  unfolding r360_mode_def arange_360 r360_step_eq [abs_def] by simp

lemma rotate_irrelevant:
  "load_events e (a\<lparr>rotate := r\<rparr>) p = load_events e a p"
  "setup_events e (a\<lparr>rotate := r\<rparr>) p = setup_events e a p"
  "output_dir (a\<lparr>rotate := r\<rparr>) p = output_dir a p"
  "r360_mode (a\<lparr>rotate := r\<rparr>) d = r360_mode a d"
  by (simp_all add: load_events_def setup_events_def output_dir_def render_net_def
      wrapped_net_def r360_mode_def r360_step_def [abs_def])

lemma main_r360:
  assumes "pretrained a = Some p" and "export a = None" and "r360 a"
  shows "main e a = after (load_events e a p @ setup_events e a p) (r360_mode a (output_dir a p))"
  using assms by (simp add: main_modes run_mode_def)

text \<open>
  Claim C5. In spinning-sequence mode (a run with \<open>--pretrained\<close> and \<open>--r360\<close>, without
  \<open>--export\<close>) the program renders exactly 36 images, one for each angle of
  \<open>0, 10, \<dots>, 350\<close> degrees in this order, each with the model matrix set to the
  rotation by that angle about the axis \<open>(-1, -1, -1) / sqrt 3\<close>, and saves each image
  right after rendering it as the RGB channel in a PNG file whose index is
  \<open>floor (100 * angle)\<close>, written with six digits. No EXR file is written. The
  effects of the run do not depend on \<open>--rotate\<close>: a model matrix set from it is
  overridden.
\<close>

theorem r360_renders_36_images:
  assumes "pretrained a = Some p" and "export a = None" and "r360 a"
  shows "(\<exists>pre. filter is_mode_event pre = []
            \<and> trace (main e a) =
                pre @ concat (map (\<lambda>angle.
                        [ShadeImages (spin_call a angle),
                         SavePng (output_dir a p @ ''/rgb/''
                                  @ fmt06d \<lfloor>100 * (of_int angle :: real)\<rfloor> @ ''.png'')
                                 Rgb (spin_call a angle)])
                      (map (\<lambda>k. 10 * int k) [0..<36])))
         \<and> length (shades (trace (main e a))) = 36
         \<and> length (pngs (trace (main e a))) = 36
         \<and> exrs (trace (main e a)) = []
         \<and> status (main e a) = Completed
         \<and> entered (main e a) = [R360]
         \<and> (\<forall>r. trace (main e (a\<lparr>rotate := r\<rparr>)) = trace (main e a))"
proof -
  let ?run = "concat (map (\<lambda>angle.
                        [ShadeImages (spin_call a angle),
                         SavePng (output_dir a p @ ''/rgb/''
                                  @ fmt06d \<lfloor>100 * (of_int angle :: real)\<rfloor> @ ''.png'')
                                 Rgb (spin_call a angle)])
                      (map (\<lambda>k. 10 * int k) [0..<36]))"
  let ?pre = "load_events e a p @ setup_events e a p"
  have m: "main e a = after ?pre (r360_mode a (output_dir a p))"
    using assms by (rule main_r360)
  have t: "trace (r360_mode a (output_dir a p)) = ?run"
    by (rule r360_mode_trace)
  have tr: "trace (main e a) = ?pre @ ?run" by (simp add: m t)
  have pre: "filter is_mode_event ?pre = []"
    by (simp add: load_events_no_mode setup_events_no_mode)
  have ex: "\<exists>pre. filter is_mode_event pre = [] \<and> trace (main e a) = pre @ ?run"
    using pre tr by blast
  have proj: "shades ?pre = [] \<and> pngs ?pre = [] \<and> exrs ?pre = []"
    using pre by (rule projections_of_setup)
  have n1: "length (shades (trace (main e a))) = 36"
    unfolding tr shades_simps spin_projections using proj by simp
  have n2: "length (pngs (trace (main e a))) = 36"
    unfolding tr pngs_simps spin_projections using proj by simp
  have n3: "exrs (trace (main e a)) = []"
    unfolding tr exrs_simps spin_projections using proj by simp
  have st: "status (main e a) = Completed \<and> entered (main e a) = [R360]"
    by (simp add: m r360_mode_def)
  have rot: "trace (main e (a\<lparr>rotate := r\<rparr>)) = trace (main e a)" for r
  proof -
    have "pretrained (a\<lparr>rotate := r\<rparr>) = Some p" and "export (a\<lparr>rotate := r\<rparr>) = None"
      and "r360 (a\<lparr>rotate := r\<rparr>)"
      using assms by simp_all
    then have "main e (a\<lparr>rotate := r\<rparr>)
          = after (load_events e (a\<lparr>rotate := r\<rparr>) p @ setup_events e (a\<lparr>rotate := r\<rparr>) p)
                  (r360_mode (a\<lparr>rotate := r\<rparr>) (output_dir (a\<lparr>rotate := r\<rparr>) p))"
      by (rule main_r360)
    then show ?thesis
      unfolding m by (simp add: rotate_irrelevant)
  qed
  show ?thesis using ex n1 n2 n3 st rot by blast
qed

theorem r360_renders_36_images_witness:
  "pretrained (args_default\<lparr>r360 := True, rotate := Some 45\<rparr>) = Some ''_results/models/armadillo.pth''
   \<and> export (args_default\<lparr>r360 := True, rotate := Some 45\<rparr>) = None
   \<and> r360 (args_default\<lparr>r360 := True, rotate := Some 45\<rparr>)
   \<and> length (shades (trace (main env_gpu (args_default\<lparr>r360 := True, rotate := Some 45\<rparr>)))) = 36
   \<and> status (main env_gpu (args_default\<lparr>r360 := True, rotate := Some 45\<rparr>)) = Completed
   \<and> fst (pngs (trace (main env_gpu (args_default\<lparr>r360 := True, rotate := Some 45\<rparr>))) ! 35)
       = ''_results/render_app/imgs/armadillo/rgb/035000.png''"
proof -
  let ?p = "''_results/models/armadillo.pth''"
  let ?a = "args_default\<lparr>r360 := True, rotate := Some 45\<rparr>"
  have a: "pretrained ?a = Some ?p" "export ?a = None" "r360 ?a"
    by (simp_all add: args_default_def)
  have d: "output_dir ?a ?p = ''_results/render_app/imgs/armadillo''"
    by (simp add: output_dir_def args_default_def model_name_def path_join_def)
  from r360_renders_36_images [OF a, of env_gpu]
  obtain pre where pre: "filter is_mode_event pre = []"
    and t: "trace (main env_gpu ?a) =
                pre @ concat (map (\<lambda>angle.
                        [ShadeImages (spin_call ?a angle),
                         SavePng (output_dir ?a ?p @ ''/rgb/''
                                  @ fmt06d \<lfloor>100 * (of_int angle :: real)\<rfloor> @ ''.png'')
                                 Rgb (spin_call ?a angle)])
                      (map (\<lambda>k. 10 * int k) [0..<36]))"
    and n: "length (shades (trace (main env_gpu ?a))) = 36"
    and s: "status (main env_gpu ?a) = Completed"
    by blast
  have "pngs pre = []" using projections_of_setup [OF pre] by simp
  then have "pngs (trace (main env_gpu ?a)) =
      map (\<lambda>angle. (output_dir ?a ?p @ ''/rgb/''
                                  @ fmt06d \<lfloor>100 * (of_int angle :: real)\<rfloor> @ ''.png'',
                      Rgb, spin_call ?a angle))
          (map (\<lambda>k. 10 * int k) [0..<36])"
    unfolding t pngs_simps spin_projections by simp
  then have "fst (pngs (trace (main env_gpu ?a)) ! 35)
      = output_dir ?a ?p @ ''/rgb/'' @ fmt06d \<lfloor>100 * (of_int (10 * int 35) :: real)\<rfloor> @ ''.png''"
    by (simp del: upt_Suc map_map add: nth_map [where n = 35])
  also have "\<dots> = ''_results/render_app/imgs/armadillo/rgb/035000.png''"
    unfolding d by (simp add: fmt06d_def digits.simps)
  finally show ?thesis using a n s by blast
qed

lemma enumerate_nth:
  "enumerate 0 xs = map (\<lambda>k. (k, xs ! k)) [0..<length xs]"
  by (intro nth_equalityI) (simp_all add: nth_enumerate_eq)

lemma rsphere_step_eq:
  "rsphere_step a d (initial_matrix a) (k, scale3 (cam_radius a) view) =
     [ShadeImages (pose_call a view)]
     @ (if exr a then [PyexrWrite (d @ ''/exr/'' @ fmt06d (int k) @ ''.exr'') (pose_call a view)]
        else [])
     @ [SavePng (d @ ''/normal/'' @ fmt06d (int k) @ ''.png'') Normal (pose_call a view)]"
  by (simp add: rsphere_step_def Let_def pose_call_def write_exr_def)

lemma rsphere_mode_trace:
  "trace (rsphere_mode e a d (initial_matrix a)) =
     concat (map (\<lambda>k.
        [ShadeImages (pose_call a (sample_fib_sphere e (nb_poses a) ! k))]
        @ (if exr a
           then [PyexrWrite (d @ ''/exr/'' @ fmt06d (int k) @ ''.exr'')
                   (pose_call a (sample_fib_sphere e (nb_poses a) ! k))]
           else [])
        @ [SavePng (d @ ''/normal/'' @ fmt06d (int k) @ ''.png'') Normal
             (pose_call a (sample_fib_sphere e (nb_poses a) ! k))])
       [0..<length (sample_fib_sphere e (nb_poses a))])"
proof -
  let ?views = "sample_fib_sphere e (nb_poses a)"
  have "enumerate 0 (map (scale3 (cam_radius a)) ?views)
          = map (\<lambda>k. (k, scale3 (cam_radius a) (?views ! k))) [0..<length ?views]"
    by (simp add: enumerate_nth)
  then show ?thesis
    by (simp add: rsphere_mode_def Let_def comp_def rsphere_step_eq)
qed

lemma pose_projections:
  "shades (concat (map (\<lambda>x. [ShadeImages (c x)] @ (if b then [PyexrWrite (g x) (c x)] else [])
                              @ [SavePng (f x) ch (c x)]) xs)) = map c xs"
  "pngs (concat (map (\<lambda>x. [ShadeImages (c x)] @ (if b then [PyexrWrite (g x) (c x)] else [])
                              @ [SavePng (f x) ch (c x)]) xs)) = map (\<lambda>x. (f x, ch, c x)) xs"
  "exrs (concat (map (\<lambda>x. [ShadeImages (c x)] @ (if b then [PyexrWrite (g x) (c x)] else [])
                              @ [SavePng (f x) ch (c x)]) xs))
     = (if b then map (\<lambda>x. (g x, c x)) xs else [])"
  by (induction xs) simp_all

text \<open>
  Claim C6. In sphere-sampled-views mode (a run with \<open>--pretrained\<close> and \<open>--rsphere\<close>,
  without \<open>--export\<close> and \<open>--r360\<close>) the program renders exactly \<open>nb_poses\<close> views,
  the camera origin of view \<open>k\<close> being \<open>cam_radius\<close> times the \<open>k\<close>-th direction of
  \<open>sample_fib_sphere(nb_poses)\<close>. For every pose it saves the normal map as a PNG file
  indexed by the pose number, and before that an EXR file with the same index if and
  only if \<open>--exr\<close> is given. The sphere sampler belongs to the repository's library and
  is a parameter, assumed to return \<open>nb_poses\<close> directions.
\<close>

theorem rsphere_renders_poses:
  assumes "pretrained a = Some p" and "export a = None" and "\<not> r360 a" and "rsphere a"
    and "length (sample_fib_sphere e (nb_poses a)) = nat (nb_poses a)"
  shows "(\<exists>pre. filter is_mode_event pre = []
            \<and> trace (main e a) =
                pre @ concat (map (\<lambda>k.
                  [ShadeImages (pose_call a (sample_fib_sphere e (nb_poses a) ! k))]
                  @ (if exr a
                     then [PyexrWrite (output_dir a p @ ''/exr/'' @ fmt06d (int k) @ ''.exr'')
                             (pose_call a (sample_fib_sphere e (nb_poses a) ! k))]
                     else [])
                  @ [SavePng (output_dir a p @ ''/normal/'' @ fmt06d (int k) @ ''.png'') Normal
                       (pose_call a (sample_fib_sphere e (nb_poses a) ! k))])
                 [0..<nat (nb_poses a)]))
         \<and> length (shades (trace (main e a))) = nat (nb_poses a)
         \<and> length (pngs (trace (main e a))) = nat (nb_poses a)
         \<and> length (exrs (trace (main e a))) = (if exr a then nat (nb_poses a) else 0)
         \<and> status (main e a) = Completed
         \<and> entered (main e a) = [RSphere]"
proof -
  let ?run = "concat (map (\<lambda>k.
                  [ShadeImages (pose_call a (sample_fib_sphere e (nb_poses a) ! k))]
                  @ (if exr a
                     then [PyexrWrite (output_dir a p @ ''/exr/'' @ fmt06d (int k) @ ''.exr'')
                             (pose_call a (sample_fib_sphere e (nb_poses a) ! k))]
                     else [])
                  @ [SavePng (output_dir a p @ ''/normal/'' @ fmt06d (int k) @ ''.png'') Normal
                       (pose_call a (sample_fib_sphere e (nb_poses a) ! k))])
                 [0..<nat (nb_poses a)])"
  let ?pre = "load_events e a p @ setup_events e a p"
  have m: "main e a = after ?pre (rsphere_mode e a (output_dir a p) (initial_matrix a))"
    using assms(1-4) by (simp add: main_modes run_mode_def)
  have t: "trace (rsphere_mode e a (output_dir a p) (initial_matrix a)) = ?run"
    unfolding rsphere_mode_trace assms(5) ..
  have tr: "trace (main e a) = ?pre @ ?run" by (simp add: m t)
  have pre: "filter is_mode_event ?pre = []"
    by (simp add: load_events_no_mode setup_events_no_mode)
  have ex: "\<exists>pre. filter is_mode_event pre = [] \<and> trace (main e a) = pre @ ?run"
    using pre tr by blast
  have proj: "shades ?pre = [] \<and> pngs ?pre = [] \<and> exrs ?pre = []"
    using pre by (rule projections_of_setup)
  have n1: "length (shades (trace (main e a))) = nat (nb_poses a)"
    unfolding tr shades_simps pose_projections using proj by simp
  have n2: "length (pngs (trace (main e a))) = nat (nb_poses a)"
    unfolding tr pngs_simps pose_projections using proj by simp
  have n3: "length (exrs (trace (main e a))) = (if exr a then nat (nb_poses a) else 0)"
    unfolding tr exrs_simps pose_projections using proj by simp
  have st: "status (main e a) = Completed \<and> entered (main e a) = [RSphere]"
    by (simp add: m rsphere_mode_def Let_def)
  show ?thesis using ex n1 n2 n3 st by blast
qed

theorem rsphere_renders_poses_witness:
  "pretrained (args_default\<lparr>rsphere := True, exr := True\<rparr>) = Some ''_results/models/armadillo.pth''
   \<and> export (args_default\<lparr>rsphere := True, exr := True\<rparr>) = None
   \<and> \<not> r360 (args_default\<lparr>rsphere := True, exr := True\<rparr>)
   \<and> rsphere (args_default\<lparr>rsphere := True, exr := True\<rparr>)
   \<and> length (sample_fib_sphere env_gpu (nb_poses (args_default\<lparr>rsphere := True, exr := True\<rparr>)))
       = nat (nb_poses (args_default\<lparr>rsphere := True, exr := True\<rparr>))
   \<and> length (shades (trace (main env_gpu (args_default\<lparr>rsphere := True, exr := True\<rparr>)))) = 64
   \<and> length (pngs (trace (main env_gpu (args_default\<lparr>rsphere := True, exr := True\<rparr>)))) = 64
   \<and> length (exrs (trace (main env_gpu (args_default\<lparr>rsphere := True, exr := True\<rparr>)))) = 64
   \<and> status (main env_gpu (args_default\<lparr>rsphere := True, exr := True\<rparr>)) = Completed"
proof -
  let ?p = "''_results/models/armadillo.pth''"
  let ?a = "args_default\<lparr>rsphere := True, exr := True\<rparr>"
  have a: "pretrained ?a = Some ?p" "export ?a = None" "\<not> r360 ?a" "rsphere ?a"
    by (simp_all add: args_default_def)
  have x: "exr ?a" and n: "nat (nb_poses ?a) = 64" by (simp_all add: args_default_def)
  have l: "length (sample_fib_sphere env_gpu (nb_poses ?a)) = nat (nb_poses ?a)"
    by (simp add: env_gpu_def)
  from rsphere_renders_poses [OF a l]
  have "length (shades (trace (main env_gpu ?a))) = nat (nb_poses ?a)"
    and "length (pngs (trace (main env_gpu ?a))) = nat (nb_poses ?a)"
    and "length (exrs (trace (main env_gpu ?a))) = (if exr ?a then nat (nb_poses ?a) else 0)"
    and "status (main env_gpu ?a) = Completed"
    by blast+
  then show ?thesis using a l x n by simp
qed

end
